theory Spec2Isabelle
  imports Complex_Main "HOL-Library.Word"
begin

section \<open>Consensus parameters of chainparams.cpp\<close>

text \<open>
  The development embeds the resolution logic of \<^verbatim>\<open>src/chainparams.cpp\<close>: the founders
  reward address rotation, the Equihash parameter lookup, the selection of the network
  parameters and the regtest-only mutators.

  C++ \<^verbatim>\<open>int\<close> values (block heights, activation heights) are mathematical integers here;
  this is exact as long as no signed operation overflows, which C++ leaves undefined. The
  two subtractions of \<^verbatim>\<open>int\<close>s in the file can overflow, so the theorems about what they
  compute require the operands and the difference to be representable (\<open>is_int\<close>).
  \<^verbatim>\<open>size_t\<close> is the 64-bit unsigned type: a value of that type is a \<open>nat\<close>, the conversion
  from \<^verbatim>\<open>int\<close> and the addition are written with their reduction modulo \<open>2 ^ 64\<close>.
  \<^verbatim>\<open>unsigned int\<close> is \<open>32 word\<close>. Assertion failures, thrown exceptions and the undefined
  behaviours the code can reach (division by zero, a vector read past its end) are
  values of the type \<open>error\<close>.
\<close>

datatype error =
    AssertionFailure
  | RuntimeError string
  | DivisionByZero
  | OutOfBounds

subsection \<open>Integer conversions\<close>

definition size_t_of_int :: "int \<Rightarrow> nat" where
  "size_t_of_int x = nat (x mod 2 ^ 64)"

definition size_t_add :: "nat \<Rightarrow> nat \<Rightarrow> nat" where
  "size_t_add a b = (a + b) mod 2 ^ 64"

text \<open>The range of the 32-bit \<^verbatim>\<open>int\<close>.\<close>

definition INT_MIN :: int where
  "INT_MIN = - (2 ^ 31)"

definition INT_MAX :: int where
  "INT_MAX = 2 ^ 31 - 1"

definition is_int :: "int \<Rightarrow> bool" where
  "is_int x \<longleftrightarrow> INT_MIN \<le> x \<and> x \<le> INT_MAX"

text \<open>Division of two \<^verbatim>\<open>int\<close>s in C++ truncates towards zero.\<close>

definition int_div :: "int \<Rightarrow> int \<Rightarrow> int" where
  "int_div a b = sgn a * sgn b * (\<bar>a\<bar> div \<bar>b\<bar>)"

subsection \<open>Upgrade schedule\<close>

text \<open>
  The enumeration \<^verbatim>\<open>Consensus::UpgradeIndex\<close>, in the order in which every constructor
  of the file fills \<^verbatim>\<open>consensus.vUpgrades\<close>; \<^verbatim>\<open>MAX_NETWORK_UPGRADES\<close> is its last enumerator
  and the length of the arrays indexed by it.
\<close>

datatype UpgradeIndex =
    BASE_SPROUT
  | UPGRADE_TESTDUMMY
  | UPGRADE_OVERWINTER
  | UPGRADE_SAPLING
  | UPGRADE_YCASH
  | UPGRADE_BLOSSOM
  | UPGRADE_HEARTWOOD
  | UPGRADE_CANOPY
  | UPGRADE_NU5
  | UPGRADE_ZFUTURE
  | MAX_NETWORK_UPGRADES

fun upgrade_index :: "UpgradeIndex \<Rightarrow> nat" where
  "upgrade_index BASE_SPROUT = 0"
| "upgrade_index UPGRADE_TESTDUMMY = 1"
| "upgrade_index UPGRADE_OVERWINTER = 2"
| "upgrade_index UPGRADE_SAPLING = 3"
| "upgrade_index UPGRADE_YCASH = 4"
| "upgrade_index UPGRADE_BLOSSOM = 5"
| "upgrade_index UPGRADE_HEARTWOOD = 6"
| "upgrade_index UPGRADE_CANOPY = 7"
| "upgrade_index UPGRADE_NU5 = 8"
| "upgrade_index UPGRADE_ZFUTURE = 9"
| "upgrade_index MAX_NETWORK_UPGRADES = 10"

record NetworkUpgrade =
  nProtocolVersion :: int
  nActivationHeight :: int

text \<open>
  Modelled from the spec: the two sentinel activation heights
  \<^verbatim>\<open>Consensus::NetworkUpgrade::ALWAYS_ACTIVE\<close> and \<^verbatim>\<open>NO_ACTIVATION_HEIGHT\<close> are declared
  outside the file. The spec lets "always active" resolve to height 0; "never active" is
  an integer that is no block height; its value matters at the example inputs only.
\<close>

definition ALWAYS_ACTIVE :: int where
  "ALWAYS_ACTIVE = 0"

definition NO_ACTIVATION_HEIGHT :: int where
  "NO_ACTIVATION_HEIGHT = - 1"

text \<open>
  \<^verbatim>\<open>Consensus::Params\<close>, with the fields the embedded functions read or write. The array
  \<^verbatim>\<open>vUpgrades\<close> is a list of \<^verbatim>\<open>MAX_NETWORK_UPGRADES\<close> entries.
\<close>

record Consensus_Params =
  fCoinbaseMustBeShielded :: bool
  nEquihashN :: "32 word"
  nEquihashK :: "32 word"
  vUpgrades :: "NetworkUpgrade list"

record CChainParams =
  strNetworkID :: string
  consensus :: Consensus_Params
  fZIP209Enabled :: bool
  vFoundersRewardAddress :: "string list"
  vYcashFoundersRewardAddress :: "string list"

text \<open>
  Modelled from the spec: \<^verbatim>\<open>Consensus::Params::NetworkUpgradeActive\<close> is defined outside the
  file. By the spec the activation height is the first height at which an upgrade's rules
  apply, and an upgrade whose activation height is the "never active" sentinel is active
  at no height.
\<close>

definition NetworkUpgradeActive :: "Consensus_Params \<Rightarrow> int \<Rightarrow> UpgradeIndex \<Rightarrow> bool" where
  "NetworkUpgradeActive params nHeight idx =
     (let activationHeight = nActivationHeight (vUpgrades params ! upgrade_index idx)
      in activationHeight \<noteq> NO_ACTIVATION_HEIGHT \<and> activationHeight \<le> nHeight)"

text \<open>
  Modelled from the spec: \<^verbatim>\<open>CurrentEpoch\<close> is defined outside the file. By the spec it
  returns the highest-ordered upgrade index that is active at the height, and the base
  index when there is none.
\<close>

definition CurrentEpoch :: "int \<Rightarrow> Consensus_Params \<Rightarrow> UpgradeIndex" where
  "CurrentEpoch nHeight params =
     (case find (NetworkUpgradeActive params nHeight)
        [UPGRADE_ZFUTURE, UPGRADE_NU5, UPGRADE_CANOPY, UPGRADE_HEARTWOOD, UPGRADE_BLOSSOM,
         UPGRADE_YCASH, UPGRADE_SAPLING, UPGRADE_OVERWINTER, UPGRADE_TESTDUMMY]
      of Some idx \<Rightarrow> idx | None \<Rightarrow> BASE_SPROUT)"

subsection \<open>Collaborators outside the file\<close>

text \<open>
  What the embedded functions call but the file does not define is a parameter of the
  model, so that every theorem holds for whatever these are:
  \<^item> \<^verbatim>\<open>Consensus::BLOSSOM_POW_TARGET_SPACING_RATIO\<close>, the integer ratio of the old to the new
    target block spacing, a positive compile-time constant, taken to be an \<^verbatim>\<open>int\<close>;
  \<^item> \<^verbatim>\<open>Consensus::Params::GetLastFoundersRewardBlockHeight\<close>, the last height eligible for
    the legacy founders reward;
  \<^item> \<^verbatim>\<open>KeyIO::ZecToYec\<close> of the \<^verbatim>\<open>KeyIO\<close> built from the chain parameters, which re-encodes
    a legacy address for the current network;
  \<^item> \<^verbatim>\<open>EquihashInfo::DEFAULT_PARAMS\<close>, the value of an Equihash table entry that inherits
    the network's default;
  \<^item> \<^verbatim>\<open>SelectBaseParams\<close>, which may throw (its own global is not part of this state);
  \<^item> \<^verbatim>\<open>CRegTestParams::SetRegTestCoinbaseMustBeShielded\<close>.
\<close>

record Externals =
  BLOSSOM_POW_TARGET_SPACING_RATIO :: int
  GetLastFoundersRewardBlockHeight :: "Consensus_Params \<Rightarrow> int \<Rightarrow> int"
  ZecToYec :: "CChainParams \<Rightarrow> string \<Rightarrow> string"
  DEFAULT_PARAMS :: "32 word"
  SelectBaseParams :: "string \<Rightarrow> error option"
  SetRegTestCoinbaseMustBeShielded :: "CChainParams \<Rightarrow> CChainParams"

subsection \<open>Founders reward address rotation\<close>

text \<open>
  \<^verbatim>\<open>CChainParams::GetFoundersRewardAddressAtHeight\<close>, in the pieces its body is made of.
  The first is the height adjustment of the pre-fork branch, which the source's comment
  names \<^verbatim>\<open>FounderAddressAdjustedHeight\<close>. Its value is the code's when
  \<^verbatim>\<open>nHeight - blossomActivationHeight\<close> is representable as an \<^verbatim>\<open>int\<close>; otherwise the code's
  subtraction overflows.
\<close>

definition FounderAddressAdjustedHeight :: "Externals \<Rightarrow> CChainParams \<Rightarrow> int \<Rightarrow> int" where
  "FounderAddressAdjustedHeight ext this nHeight =
     (let blossomActive = NetworkUpgradeActive (consensus this) nHeight UPGRADE_BLOSSOM
      in if blossomActive then
           (let blossomActivationHeight =
                  nActivationHeight (vUpgrades (consensus this) ! upgrade_index UPGRADE_BLOSSOM)
            in blossomActivationHeight +
                 int_div (nHeight - blossomActivationHeight) (BLOSSOM_POW_TARGET_SPACING_RATIO ext))
         else nHeight)"

text \<open>
  The \<^verbatim>\<open>size_t addressChangeInterval\<close> of the pre-fork branch: the \<^verbatim>\<open>int\<close> is converted to
  \<^verbatim>\<open>size_t\<close>, the vector's size is added and the sum is divided by the size.
\<close>

definition legacyAddressChangeInterval :: "Externals \<Rightarrow> CChainParams \<Rightarrow> nat" where
  "legacyAddressChangeInterval ext this =
     (let preBlossomMaxHeight = GetLastFoundersRewardBlockHeight ext (consensus this) 0
      in size_t_add (size_t_of_int preBlossomMaxHeight) (length (vFoundersRewardAddress this))
           div length (vFoundersRewardAddress this))"

text \<open>The \<^verbatim>\<open>size_t i\<close> of the pre-fork branch, from the adjusted height.\<close>

definition legacyAddressIndex :: "Externals \<Rightarrow> CChainParams \<Rightarrow> int \<Rightarrow> nat" where
  "legacyAddressIndex ext this nHeight =
     size_t_of_int nHeight div legacyAddressChangeInterval ext this"

text \<open>
  The \<^verbatim>\<open>size_t i\<close> of the post-fork branch, before the reduction modulo the list size. Its
  value is the code's when the difference of the height and the fork's activation height
  is representable as an \<^verbatim>\<open>int\<close>; otherwise the code's subtraction overflows.
\<close>

definition ycashAddressIndex :: "CChainParams \<Rightarrow> int \<Rightarrow> nat" where
  "ycashAddressIndex this nHeight =
     (let addressChangeInterval = 17917
      in size_t_of_int
           (nHeight - nActivationHeight (vUpgrades (consensus this) ! upgrade_index UPGRADE_YCASH))
           div addressChangeInterval)"

text \<open>
  The rest of the pre-fork branch, from the adjusted height on: the assertion, the interval,
  the index and the read of \<^verbatim>\<open>vFoundersRewardAddress[i]\<close>, re-encoded by \<^verbatim>\<open>ZecToYec\<close>.
\<close>

definition legacyFoundersRewardAddress ::
    "Externals \<Rightarrow> CChainParams \<Rightarrow> int \<Rightarrow> error + string" where
  "legacyFoundersRewardAddress ext this nHeight =
     (let preBlossomMaxHeight = GetLastFoundersRewardBlockHeight ext (consensus this) 0
      in if \<not> (nHeight > 0 \<and> nHeight \<le> preBlossomMaxHeight) then Inl AssertionFailure
         else if length (vFoundersRewardAddress this) = 0 then Inl DivisionByZero
         else if legacyAddressChangeInterval ext this = 0 then Inl DivisionByZero
         else
           (let i = legacyAddressIndex ext this nHeight
            in if i < length (vFoundersRewardAddress this)
               then Inr (ZecToYec ext this (vFoundersRewardAddress this ! i))
               else Inl OutOfBounds))"

definition GetFoundersRewardAddressAtHeight ::
    "Externals \<Rightarrow> CChainParams \<Rightarrow> int \<Rightarrow> error + string" where
  "GetFoundersRewardAddressAtHeight ext this nHeight =
     (if \<not> NetworkUpgradeActive (consensus this) nHeight UPGRADE_YCASH then
        legacyFoundersRewardAddress ext this (FounderAddressAdjustedHeight ext this nHeight)
      else
        (let i = ycashAddressIndex this nHeight
         in if length (vYcashFoundersRewardAddress this) = 0 then Inl DivisionByZero
            else Inr (vYcashFoundersRewardAddress this
                        ! (i mod length (vYcashFoundersRewardAddress this)))))"

subsection \<open>Equihash parameters\<close>

record EquihashInfo =
  N :: "32 word"
  K :: "32 word"

text \<open>
  The global array \<^verbatim>\<open>EquihashUpgradeInfo\<close> (a list of \<^verbatim>\<open>MAX_NETWORK_UPGRADES\<close> entries,
  initialised outside the file) is an argument of the functions that read or write it.
\<close>

definition UpdateEquihashUpgradeParameters ::
    "UpgradeIndex \<Rightarrow> 32 word \<Rightarrow> 32 word \<Rightarrow> EquihashInfo list \<Rightarrow> error + EquihashInfo list" where
  "UpdateEquihashUpgradeParameters idx n k EquihashUpgradeInfo =
     (if \<not> (upgrade_index idx > upgrade_index BASE_SPROUT
              \<and> upgrade_index idx < upgrade_index MAX_NETWORK_UPGRADES)
      then Inl AssertionFailure
      else Inr (EquihashUpgradeInfo[upgrade_index idx := \<lparr>N = n, K = k\<rparr>]))"

definition EquihashN :: "Externals \<Rightarrow> EquihashInfo list \<Rightarrow> CChainParams \<Rightarrow> int \<Rightarrow> 32 word" where
  "EquihashN ext EquihashUpgradeInfo this nHeight =
     (if strNetworkID this = ''regtest'' then nEquihashN (consensus this)
      else
        (let n = N (EquihashUpgradeInfo ! upgrade_index (CurrentEpoch nHeight (consensus this)))
         in if n = DEFAULT_PARAMS ext then nEquihashN (consensus this) else n))"

definition EquihashK :: "Externals \<Rightarrow> EquihashInfo list \<Rightarrow> CChainParams \<Rightarrow> int \<Rightarrow> 32 word" where
  "EquihashK ext EquihashUpgradeInfo this nHeight =
     (if strNetworkID this = ''regtest'' then nEquihashK (consensus this)
      else
        (let k = K (EquihashUpgradeInfo ! upgrade_index (CurrentEpoch nHeight (consensus this)))
         in if k = DEFAULT_PARAMS ext then nEquihashK (consensus this) else k))"

subsection \<open>The three networks\<close>

text \<open>
  The constructors \<^verbatim>\<open>CMainParams\<close>, \<^verbatim>\<open>CTestNetParams\<close> and \<^verbatim>\<open>CRegTestParams\<close>, for the fields
  of the records above.
\<close>

definition CMainParams_vFoundersRewardAddress :: "string list" where
  "CMainParams_vFoundersRewardAddress =
    [''t3Vz22vK5z2LcKEdg16Yv4FFneEL1zg9ojd'', ''t3cL9AucCajm3HXDhb5jBnJK2vapVoXsop3'', ''t3fqvkzrrNaMcamkQMwAyHRjfDdM2xQvDTR'',
     ''t3TgZ9ZT2CTSK44AnUPi6qeNaHa2eC7pUyF'', ''t3SpkcPQPfuRYHsP5vz3Pv86PgKo5m9KVmx'', ''t3Xt4oQMRPagwbpQqkgAViQgtST4VoSWR6S'',
     ''t3ayBkZ4w6kKXynwoHZFUSSgXRKtogTXNgb'', ''t3adJBQuaa21u7NxbR8YMzp3km3TbSZ4MGB'', ''t3K4aLYagSSBySdrfAGGeUd5H9z5Qvz88t2'',
     ''t3RYnsc5nhEvKiva3ZPhfRSk7eyh1CrA6Rk'', ''t3Ut4KUq2ZSMTPNE67pBU5LqYCi2q36KpXQ'', ''t3ZnCNAvgu6CSyHm1vWtrx3aiN98dSAGpnD'',
     ''t3fB9cB3eSYim64BS9xfwAHQUKLgQQroBDG'', ''t3cwZfKNNj2vXMAHBQeewm6pXhKFdhk18kD'', ''t3YcoujXfspWy7rbNUsGKxFEWZqNstGpeG4'',
     ''t3bLvCLigc6rbNrUTS5NwkgyVrZcZumTRa4'', ''t3VvHWa7r3oy67YtU4LZKGCWa2J6eGHvShi'', ''t3eF9X6X2dSo7MCvTjfZEzwWrVzquxRLNeY'',
     ''t3esCNwwmcyc8i9qQfyTbYhTqmYXZ9AwK3X'', ''t3M4jN7hYE2e27yLsuQPPjuVek81WV3VbBj'', ''t3gGWxdC67CYNoBbPjNvrrWLAWxPqZLxrVY'',
     ''t3LTWeoxeWPbmdkUD3NWBquk4WkazhFBmvU'', ''t3P5KKX97gXYFSaSjJPiruQEX84yF5z3Tjq'', ''t3f3T3nCWsEpzmD35VK62JgQfFig74dV8C9'',
     ''t3Rqonuzz7afkF7156ZA4vi4iimRSEn41hj'', ''t3fJZ5jYsyxDtvNrWBeoMbvJaQCj4JJgbgX'', ''t3Pnbg7XjP7FGPBUuz75H65aczphHgkpoJW'',
     ''t3WeKQDxCijL5X7rwFem1MTL9ZwVJkUFhpF'', ''t3Y9FNi26J7UtAUC4moaETLbMo8KS1Be6ME'', ''t3aNRLLsL2y8xcjPheZZwFy3Pcv7CsTwBec'',
     ''t3gQDEavk5VzAAHK8TrQu2BWDLxEiF1unBm'', ''t3Rbykhx1TUFrgXrmBYrAJe2STxRKFL7G9r'', ''t3aaW4aTdP7a8d1VTE1Bod2yhbeggHgMajR'',
     ''t3YEiAa6uEjXwFL2v5ztU1fn3yKgzMQqNyo'', ''t3g1yUUwt2PbmDvMDevTCPWUcbDatL2iQGP'', ''t3dPWnep6YqGPuY1CecgbeZrY9iUwH8Yd4z'',
     ''t3QRZXHDPh2hwU46iQs2776kRuuWfwFp4dV'', ''t3enhACRxi1ZD7e8ePomVGKn7wp7N9fFJ3r'', ''t3PkLgT71TnF112nSwBToXsD77yNbx2gJJY'',
     ''t3LQtHUDoe7ZhhvddRv4vnaoNAhCr2f4oFN'', ''t3fNcdBUbycvbCtsD2n9q3LuxG7jVPvFB8L'', ''t3dKojUU2EMjs28nHV84TvkVEUDu1M1FaEx'',
     ''t3aKH6NiWN1ofGd8c19rZiqgYpkJ3n679ME'', ''t3MEXDF9Wsi63KwpPuQdD6by32Mw2bNTbEa'', ''t3WDhPfik343yNmPTqtkZAoQZeqA83K7Y3f'',
     ''t3PSn5TbMMAEw7Eu36DYctFezRzpX1hzf3M'', ''t3R3Y5vnBLrEn8L6wFjPjBLnxSUQsKnmFpv'', ''t3Pcm737EsVkGTbhsu2NekKtJeG92mvYyoN'']"

definition CMainParams_vYcashFoundersRewardAddress :: "string list" where
  "CMainParams_vYcashFoundersRewardAddress =
    [''s1hfWJ4ej1H3s8XCUb7YnrU68K64AsGVUHE'', ''s1iZaRoYtafWspcieQxg6hhaU4DfZyAdGQf'', ''s1RSr6xec6Cc98emM4cdq45rkVekHMjRWbw'',
     ''s1RsqYeweoKVepivLPLsiajE8c6khu5UKhS'', ''s1MNmqMWyV4nMWE4oDb1nqJs7haJrv9QTKp'', ''s1RP95ESdcu33gMtU7deLW9TP6yDZncjRQ7'',
     ''s1h8W7xQbiU8Zxu21Zcg82NByjkWMcEbNtX'', ''s1PVcdfcrJrDCmXxgSTGuKGSNhwSYZ51XKJ'', ''s1PkV5nFkgQN4EGuTtEcmm4CxeBVx2L5HHv'',
     ''s1jiVSTfMaFUrWnf17BGc416oomHbut58Ue'', ''s1Zr2KdHtnK2zNSMQDrAVv3KU51mgDbqgwe'', ''s1QkY6tmBHPZacXPMPmsjP37Kxgs5mcgcAn'',
     ''s1Xu76ZmGDENdLFAiuj5iMdp1RA4hWSNieq'', ''s1bdiEnfBYaEgrt2TmnY3ZHmdhg5AEw9tjN'', ''s1asM9Ui4U13GjmLoAhvfK6J5QihemQR9Pk'',
     ''s1QhTSXYu4K1cTNomN27wiep9WC9HBZjrxJ'', ''s1j3Ef2qCNjwRAM18BgwsPAZFzZ475BWM5S'', ''s1QZibiN7iqVCfVBES9Gn7e3o5psxRKtpwE'',
     ''s1fdiDZHkzp8K8UajpVwYUdyFeb6jNVyoKv'', ''s1iMShbVRH1eCGxK2ZoLMDn5o9NcwXkNPVF'', ''s1YtUXAMt8m31gGeP5m3Y53B1wrMk3FFigJ'',
     ''s1gy9aqWUihGRjZa3vqc7136vqTGNAWyefF'', ''s1NNozrex18HZqcHCGpGoSRkj8hqHLEPaVC'', ''s1NYNDdqthMf7D7sZbnLGuecDtXb48Ne2bf'',
     ''s1P7UJ9Wp7jstJPUbvMSRVFjN8tfQueQSK3'', ''s1RDeyH7xg8y9veb9XfAmtKzrMTjFS14c4T'', ''s1NmH6MNXU19xoHjUfpQpb4dEMSy1Wbs9tC'',
     ''s1UnFL2yrZapMKmB5EqaBKpogZmnXLUgELB'', ''s1XT3W1sLFdgmGoecQbPdJbjUDMurW8CFA2'', ''s1gyVwgangQxLCAcm8VS4SWqXDqeohNg7hd'',
     ''s1k3eWbqnbVM1xtZEDc81UbFdwXgXNnbtdH'', ''s1Wr6eAh3gZWwBVRZcND9YCzdNfR9cARkD4'', ''s1dtjp2KHWZ6qF2LvgNiEwjJV2dA2c6y75V'',
     ''s1cjQf9kmjQdTmnn6mbBaesHMNLt2JqjyEV'', ''s1URQeusSoi7fkgyAwCshFzobUzmLGH4U3b'', ''s1Z9YqM2h48HUf8kcSHS89q4Z6Bg9xua3kA'',
     ''s1TLmZzMDsDhYfh4vpY7NpRB4kao2UEEqKu'', ''s1QEWvfC1uifDfi78NY7cArw9xLEja7QAZR'', ''s1b4kfW9WMUtd2H7X4C64KLzqPWdMPXRMtS'',
     ''s1cHTXzCXhKYAX7sY7D8YGcmopjN8Yngoju'', ''s1QKjMQDeF9FLVo2sL8m11VC4ZA18s61s2K'', ''s1gV8D561ZpmaZVxG176cQM1bMFMnHLvujE'',
     ''s1caQmLCYVDZegcMoBckHD2RXjBh7ikpj2j'', ''s1Y63AsWsJTk5t5nSZfaFcFWmtfnFUUAu2V'', ''s1Y2U4GsfZdP9LAbC97GAmSdihBX5FU9gQn'',
     ''s1bPYWZMXzyN2ML2vswDiCckmas775QFs2Q'', ''s1erG25RcWYCiBPbT7khTU4ULhzm8jJZ7pv'', ''s1kYEiPdFZ3oV389q2MmSYY932qPF1ygVtx'']"

definition CTestNetParams_vFoundersRewardAddress :: "string list" where
  "CTestNetParams_vFoundersRewardAddress =
    [''t2UNzUUx8mWBCRYPRezvA363EYXyEpHokyi'', ''t2N9PH9Wk9xjqYg9iin1Ua3aekJqfAtE543'', ''t2NGQjYMQhFndDHguvUw4wZdNdsssA6K7x2'',
     ''t2ENg7hHVqqs9JwU5cgjvSbxnT2a9USNfhy'', ''t2BkYdVCHzvTJJUTx4yZB8qeegD8QsPx8bo'', ''t2J8q1xH1EuigJ52MfExyyjYtN3VgvshKDf'',
     ''t2Crq9mydTm37kZokC68HzT6yez3t2FBnFj'', ''t2EaMPUiQ1kthqcP5UEkF42CAFKJqXCkXC9'', ''t2F9dtQc63JDDyrhnfpzvVYTJcr57MkqA12'',
     ''t2LPirmnfYSZc481GgZBa6xUGcoovfytBnC'', ''t26xfxoSw2UV9Pe5o3C8V4YybQD4SESfxtp'', ''t2D3k4fNdErd66YxtvXEdft9xuLoKD7CcVo'',
     ''t2DWYBkxKNivdmsMiivNJzutaQGqmoRjRnL'', ''t2C3kFF9iQRxfc4B9zgbWo4dQLLqzqjpuGQ'', ''t2MnT5tzu9HSKcppRyUNwoTp8MUueuSGNaB'',
     ''t2AREsWdoW1F8EQYsScsjkgqobmgrkKeUkK'', ''t2Vf4wKcJ3ZFtLj4jezUUKkwYR92BLHn5UT'', ''t2K3fdViH6R5tRuXLphKyoYXyZhyWGghDNY'',
     ''t2VEn3KiKyHSGyzd3nDw6ESWtaCQHwuv9WC'', ''t2F8XouqdNMq6zzEvxQXHV1TjwZRHwRg8gC'', ''t2BS7Mrbaef3fA4xrmkvDisFVXVrRBnZ6Qj'',
     ''t2FuSwoLCdBVPwdZuYoHrEzxAb9qy4qjbnL'', ''t2SX3U8NtrT6gz5Db1AtQCSGjrpptr8JC6h'', ''t2V51gZNSoJ5kRL74bf9YTtbZuv8Fcqx2FH'',
     ''t2FyTsLjjdm4jeVwir4xzj7FAkUidbr1b4R'', ''t2EYbGLekmpqHyn8UBF6kqpahrYm7D6N1Le'', ''t2NQTrStZHtJECNFT3dUBLYA9AErxPCmkka'',
     ''t2GSWZZJzoesYxfPTWXkFn5UaxjiYxGBU2a'', ''t2RpffkzyLRevGM3w9aWdqMX6bd8uuAK3vn'', ''t2JzjoQqnuXtTGSN7k7yk5keURBGvYofh1d'',
     ''t2AEefc72ieTnsXKmgK2bZNckiwvZe3oPNL'', ''t2NNs3ZGZFsNj2wvmVd8BSwSfvETgiLrD8J'', ''t2ECCQPVcxUCSSQopdNquguEPE14HsVfcUn'',
     ''t2JabDUkG8TaqVKYfqDJ3rqkVdHKp6hwXvG'', ''t2FGzW5Zdc8Cy98ZKmRygsVGi6oKcmYir9n'', ''t2DUD8a21FtEFn42oVLp5NGbogY13uyjy9t'',
     ''t2UjVSd3zheHPgAkuX8WQW2CiC9xHQ8EvWp'', ''t2TBUAhELyHUn8i6SXYsXz5Lmy7kDzA1uT5'', ''t2Tz3uCyhP6eizUWDc3bGH7XUC9GQsEyQNc'',
     ''t2NysJSZtLwMLWEJ6MH3BsxRh6h27mNcsSy'', ''t2KXJVVyyrjVxxSeazbY9ksGyft4qsXUNm9'', ''t2J9YYtH31cveiLZzjaE4AcuwVho6qjTNzp'',
     ''t2QgvW4sP9zaGpPMH1GRzy7cpydmuRfB4AZ'', ''t2NDTJP9MosKpyFPHJmfjc5pGCvAU58XGa4'', ''t29pHDBWq7qN4EjwSEHg8wEqYe9pkmVrtRP'',
     ''t2Ez9KM8VJLuArcxuEkNRAkhNvidKkzXcjJ'', ''t2D5y7J5fpXajLbGrMBQkFg2mFN8fo3n8cX'', ''t2UV2wr1PTaUiybpkV3FdSdGxUJeZdZztyt'']"

definition CTestNetParams_vYcashFoundersRewardAddress :: "string list" where
  "CTestNetParams_vYcashFoundersRewardAddress =
    [''smDw2LWkeuJ1NGBDDZvdNbzY8A9D1mkkDZm'', ''smDxM6WPpz3HcK6m9cCnhQkBXMLnUf3cryA'', ''smEKdQPcZHYTmcTbVkqfWryRbEZWMrapjMo'',
     ''smEVfJmuGErW6ZM3XSNwbJR6cPU3iPABAqY'', ''smEkWMsbV1CBZosu9wtq69f2vNXBT1owNKe'', ''smFd3Dh5MjEttRHd9S8kx153Vzesefzjc2d'',
     ''smGBXB9SrjnEDf7ASQxvnujBRc1qBb58o5q'', ''smGLTYjSriA3n8EMf4JTiHLGUCzUYjau3WV'', ''smGVF2kDywxhjfzBqoFDE1AyXZEafTLSjbH'',
     ''smGVrxUHUzd2gaURPw2ASoE3L5WMFcxJcp1'', ''smHTCd59Q9pFzrzA73f6het1ozDzeQaA8E3'', ''smHy6JaGM9gkaGBJ4DF4p5FbFvoUbpAusWd'',
     ''smJ1fpQdKNuchkxuVUMBkcCWoBcWFmyDAyZ'', ''smJ2j3Gea5XH7ERpyYzvo6YQKaoYfzkMUS3'', ''smJ8gtE5EX5oFSp4c5cCDpxoajXTQu73VSC'',
     ''smJyGxvwpCxPaFJM6TwZ6cwT1qz5PMPPBeL'', ''smKEt1iVgCDY9V4915HnGpFK3zyTPyQixMa'', ''smKXxXsNLUVE8Qro6R9EyaEZmvgxqjbsFX9'',
     ''smLTH7FEiXUVpWjhoL91ToMoSZPU8xAvEh9'', ''smLo65rNyiEYiVHxWZHNNP9QU1HsQu3QX7b'', ''smMDUN36MqFE4thY54CQnWBpU4ePuayF9TV'',
     ''smMWmoipQ7YVuRAJaQHKqhHbbTg28mS6ET5'', ''smMtCCZsR3s7ZiEYskFietNPfSb1eVHNoZi'', ''smMuh9QVkpQg93Gb54ucaVykbk9FgjZBN3D'',
     ''smNM44GrsbMWHQRhhayqieCadzURNDLkxkW'', ''smNhJLQs3LmHWtVscrnJmrLhhjPcDD3unJZ'', ''smPHxC1438rANivn1omntbRF5Nf2wSZfFhs'',
     ''smSAidYKoFY2fmi2efcoJPSeBpdVC2vyHvj'', ''smShCYXefsx8RcnW2b7duPKBcD5TXWY5K2A'', ''smTRxVMtveLrdzVb1B9rLKfDZ3Qp8kAna7r'',
     ''smTnar3ernxTG5voae2bUC185EicBdSKVux'', ''smUmPeP8VwuPsNTcJcB7YZY1b1HJJsJfkYp'', ''smVSGTzPP4dbj3HXRR84WoBFWw4EVuuyVi2'',
     ''smW8AA9LAKGMj4EXxNtfJQFLFaiuzTyGwYa'', ''smWAgHkGiQ1fZHF9ZBjYzKS7ZX8JtjvWbaU'', ''smX1HT3n9mtPGeK7qMBETCEGL5UG8eC8nmy'',
     ''smX3udkLyb3qZ2z2muEinbvNuSi5M2JiiE5'', ''smXEcB2QZaZgevkB7CS1Tz2BZNQ9cnNwXBj'', ''smXddMXWZvpRDq4FjuTGxLWYTtwbNwc36g5'',
     ''smXfPS6G7aiVECG8qFvZc9oFe1bzEvCKECG'', ''smXxQi63m9x2WfhdBYogWdKzavVpbnnGyJq'', ''smZ53EtRafyjGZyjiNDb1FiGbwXbtE3aqTB'',
     ''smZJPM9KsKAdfotD6Woh2nb8wLedvhf4Nw5'', ''smZyciv3CGZLAFU8d2yKff33FU8f2nek5yx'', ''smZzRpCLENnxN5JgMHaKtMruTCi7jsa7Tak'',
     ''smaWKSqvUJvajRquGbaHBdNbL78fDf6hdwE'', ''smazMQ9G7NLJXAzX4ZMKc8x6DigyeoEucgk'', ''smbTaZmsKNEVstoQVyZcJAMJExiytfnwaMU'']"

definition CRegTestParams_vFoundersRewardAddress :: "string list" where
  "CRegTestParams_vFoundersRewardAddress =
    [''t2FwcEhFdNXuFMv1tcYwaBJtYVtMj8b1uTg'']"

definition CRegTestParams_vYcashFoundersRewardAddress :: "string list" where
  "CRegTestParams_vYcashFoundersRewardAddress =
    [''smDw2LWkeuJ1NGBDDZvdNbzY8A9D1mkkDZm'', ''smDxM6WPpz3HcK6m9cCnhQkBXMLnUf3cryA'', ''smEKdQPcZHYTmcTbVkqfWryRbEZWMrapjMo'',
     ''smEVfJmuGErW6ZM3XSNwbJR6cPU3iPABAqY'', ''smEkWMsbV1CBZosu9wtq69f2vNXBT1owNKe'', ''smFd3Dh5MjEttRHd9S8kx153Vzesefzjc2d'',
     ''smGBXB9SrjnEDf7ASQxvnujBRc1qBb58o5q'', ''smGLTYjSriA3n8EMf4JTiHLGUCzUYjau3WV'', ''smGVF2kDywxhjfzBqoFDE1AyXZEafTLSjbH'',
     ''smGVrxUHUzd2gaURPw2ASoE3L5WMFcxJcp1'', ''smHTCd59Q9pFzrzA73f6het1ozDzeQaA8E3'', ''smHy6JaGM9gkaGBJ4DF4p5FbFvoUbpAusWd'',
     ''smJ1fpQdKNuchkxuVUMBkcCWoBcWFmyDAyZ'', ''smJ2j3Gea5XH7ERpyYzvo6YQKaoYfzkMUS3'', ''smJ8gtE5EX5oFSp4c5cCDpxoajXTQu73VSC'',
     ''smJyGxvwpCxPaFJM6TwZ6cwT1qz5PMPPBeL'', ''smKEt1iVgCDY9V4915HnGpFK3zyTPyQixMa'', ''smKXxXsNLUVE8Qro6R9EyaEZmvgxqjbsFX9'',
     ''smLTH7FEiXUVpWjhoL91ToMoSZPU8xAvEh9'', ''smLo65rNyiEYiVHxWZHNNP9QU1HsQu3QX7b'', ''smMDUN36MqFE4thY54CQnWBpU4ePuayF9TV'',
     ''smMWmoipQ7YVuRAJaQHKqhHbbTg28mS6ET5'', ''smMtCCZsR3s7ZiEYskFietNPfSb1eVHNoZi'', ''smMuh9QVkpQg93Gb54ucaVykbk9FgjZBN3D'',
     ''smNM44GrsbMWHQRhhayqieCadzURNDLkxkW'', ''smNhJLQs3LmHWtVscrnJmrLhhjPcDD3unJZ'', ''smPHxC1438rANivn1omntbRF5Nf2wSZfFhs'',
     ''smSAidYKoFY2fmi2efcoJPSeBpdVC2vyHvj'', ''smShCYXefsx8RcnW2b7duPKBcD5TXWY5K2A'', ''smTRxVMtveLrdzVb1B9rLKfDZ3Qp8kAna7r'',
     ''smTnar3ernxTG5voae2bUC185EicBdSKVux'', ''smUmPeP8VwuPsNTcJcB7YZY1b1HJJsJfkYp'', ''smVSGTzPP4dbj3HXRR84WoBFWw4EVuuyVi2'',
     ''smW8AA9LAKGMj4EXxNtfJQFLFaiuzTyGwYa'', ''smWAgHkGiQ1fZHF9ZBjYzKS7ZX8JtjvWbaU'', ''smX1HT3n9mtPGeK7qMBETCEGL5UG8eC8nmy'',
     ''smX3udkLyb3qZ2z2muEinbvNuSi5M2JiiE5'', ''smXEcB2QZaZgevkB7CS1Tz2BZNQ9cnNwXBj'', ''smXddMXWZvpRDq4FjuTGxLWYTtwbNwc36g5'',
     ''smXfPS6G7aiVECG8qFvZc9oFe1bzEvCKECG'', ''smXxQi63m9x2WfhdBYogWdKzavVpbnnGyJq'', ''smZ53EtRafyjGZyjiNDb1FiGbwXbtE3aqTB'',
     ''smZJPM9KsKAdfotD6Woh2nb8wLedvhf4Nw5'', ''smZyciv3CGZLAFU8d2yKff33FU8f2nek5yx'', ''smZzRpCLENnxN5JgMHaKtMruTCi7jsa7Tak'',
     ''smaWKSqvUJvajRquGbaHBdNbL78fDf6hdwE'', ''smazMQ9G7NLJXAzX4ZMKc8x6DigyeoEucgk'', ''smbTaZmsKNEVstoQVyZcJAMJExiytfnwaMU'']"

definition CMainParams :: CChainParams where
  "CMainParams =
     \<lparr>strNetworkID = ''main'',
      consensus =
        \<lparr>fCoinbaseMustBeShielded = True, nEquihashN = 200, nEquihashK = 9,
         vUpgrades =
           [\<lparr>nProtocolVersion = 170002, nActivationHeight = ALWAYS_ACTIVE\<rparr>,
            \<lparr>nProtocolVersion = 170002, nActivationHeight = NO_ACTIVATION_HEIGHT\<rparr>,
            \<lparr>nProtocolVersion = 170005, nActivationHeight = 347500\<rparr>,
            \<lparr>nProtocolVersion = 170007, nActivationHeight = 419200\<rparr>,
            \<lparr>nProtocolVersion = 270007, nActivationHeight = 570000\<rparr>,
            \<lparr>nProtocolVersion = 270009, nActivationHeight = 1100000\<rparr>,
            \<lparr>nProtocolVersion = 270011, nActivationHeight = 1100003\<rparr>,
            \<lparr>nProtocolVersion = 270013, nActivationHeight = 1100006\<rparr>,
            \<lparr>nProtocolVersion = 270015, nActivationHeight = NO_ACTIVATION_HEIGHT\<rparr>,
            \<lparr>nProtocolVersion = 0x7FFFFFFF, nActivationHeight = NO_ACTIVATION_HEIGHT\<rparr>]\<rparr>,
      fZIP209Enabled = True,
      vFoundersRewardAddress = CMainParams_vFoundersRewardAddress,
      vYcashFoundersRewardAddress = CMainParams_vYcashFoundersRewardAddress\<rparr>"

definition CTestNetParams :: CChainParams where
  "CTestNetParams =
     \<lparr>strNetworkID = ''test'',
      consensus =
        \<lparr>fCoinbaseMustBeShielded = True, nEquihashN = 200, nEquihashK = 9,
         vUpgrades =
           [\<lparr>nProtocolVersion = 170002, nActivationHeight = ALWAYS_ACTIVE\<rparr>,
            \<lparr>nProtocolVersion = 170002, nActivationHeight = NO_ACTIVATION_HEIGHT\<rparr>,
            \<lparr>nProtocolVersion = 170003, nActivationHeight = 207500\<rparr>,
            \<lparr>nProtocolVersion = 170007, nActivationHeight = 280000\<rparr>,
            \<lparr>nProtocolVersion = 270007, nActivationHeight = 510248\<rparr>,
            \<lparr>nProtocolVersion = 270008, nActivationHeight = 661610\<rparr>,
            \<lparr>nProtocolVersion = 270010, nActivationHeight = 661622\<rparr>,
            \<lparr>nProtocolVersion = 270012, nActivationHeight = 661634\<rparr>,
            \<lparr>nProtocolVersion = 270014, nActivationHeight = NO_ACTIVATION_HEIGHT\<rparr>,
            \<lparr>nProtocolVersion = 0x7FFFFFFF, nActivationHeight = NO_ACTIVATION_HEIGHT\<rparr>]\<rparr>,
      fZIP209Enabled = True,
      vFoundersRewardAddress = CTestNetParams_vFoundersRewardAddress,
      vYcashFoundersRewardAddress = CTestNetParams_vYcashFoundersRewardAddress\<rparr>"

text \<open>
  \<^verbatim>\<open>CRegTestParams\<close> does not assign \<^verbatim>\<open>fZIP209Enabled\<close>; the member's initial value, set
  outside the file, is taken to be false.
\<close>

definition CRegTestParams :: CChainParams where
  "CRegTestParams =
     \<lparr>strNetworkID = ''regtest'',
      consensus =
        \<lparr>fCoinbaseMustBeShielded = False, nEquihashN = 48, nEquihashK = 5,
         vUpgrades =
           [\<lparr>nProtocolVersion = 170002, nActivationHeight = ALWAYS_ACTIVE\<rparr>,
            \<lparr>nProtocolVersion = 170002, nActivationHeight = NO_ACTIVATION_HEIGHT\<rparr>,
            \<lparr>nProtocolVersion = 170003, nActivationHeight = NO_ACTIVATION_HEIGHT\<rparr>,
            \<lparr>nProtocolVersion = 170006, nActivationHeight = NO_ACTIVATION_HEIGHT\<rparr>,
            \<lparr>nProtocolVersion = 270007, nActivationHeight = NO_ACTIVATION_HEIGHT\<rparr>,
            \<lparr>nProtocolVersion = 270008, nActivationHeight = NO_ACTIVATION_HEIGHT\<rparr>,
            \<lparr>nProtocolVersion = 270010, nActivationHeight = NO_ACTIVATION_HEIGHT\<rparr>,
            \<lparr>nProtocolVersion = 270012, nActivationHeight = NO_ACTIVATION_HEIGHT\<rparr>,
            \<lparr>nProtocolVersion = 270014, nActivationHeight = NO_ACTIVATION_HEIGHT\<rparr>,
            \<lparr>nProtocolVersion = 0x7FFFFFFF, nActivationHeight = NO_ACTIVATION_HEIGHT\<rparr>]\<rparr>,
      fZIP209Enabled = False,
      vFoundersRewardAddress = CRegTestParams_vFoundersRewardAddress,
      vYcashFoundersRewardAddress = CRegTestParams_vYcashFoundersRewardAddress\<rparr>"

text \<open>The member functions of \<^verbatim>\<open>CRegTestParams\<close> that the file defines and calls.\<close>

definition CRegTestParams_UpdateNetworkUpgradeParameters ::
    "UpgradeIndex \<Rightarrow> int \<Rightarrow> CChainParams \<Rightarrow> error + CChainParams" where
  "CRegTestParams_UpdateNetworkUpgradeParameters idx nActivationHeight' this =
     (if \<not> (upgrade_index idx > upgrade_index BASE_SPROUT
              \<and> upgrade_index idx < upgrade_index MAX_NETWORK_UPGRADES)
      then Inl AssertionFailure
      else Inr (this\<lparr>consensus := (consensus this)
                  \<lparr>vUpgrades := (vUpgrades (consensus this))
                     [upgrade_index idx :=
                        (vUpgrades (consensus this) ! upgrade_index idx)
                          \<lparr>nActivationHeight := nActivationHeight'\<rparr>]\<rparr>\<rparr>))"

definition SetRegTestZIP209Enabled :: "CChainParams \<Rightarrow> CChainParams" where
  "SetRegTestZIP209Enabled this = this\<lparr>fZIP209Enabled := True\<rparr>"

subsection \<open>Process-wide state and selection\<close>

text \<open>
  The file's static objects: the three parameter sets, the pointer \<^verbatim>\<open>pCurrentParams\<close>
  (\<open>None\<close> is the null pointer, otherwise it names the object pointed to), and the argument
  map \<^verbatim>\<open>mapArgs\<close> that \<^verbatim>\<open>SelectParams\<close> reads.
\<close>

datatype ParamsRef = Ref_mainParams | Ref_testNetParams | Ref_regTestParams

record Globals =
  mainParams :: CChainParams
  testNetParams :: CChainParams
  regTestParams :: CChainParams
  pCurrentParams :: "ParamsRef option"
  mapArgs :: "string \<rightharpoonup> string"

definition static_init :: "(string \<rightharpoonup> string) \<Rightarrow> Globals" where
  "static_init args =
     \<lparr>mainParams = CMainParams, testNetParams = CTestNetParams, regTestParams = CRegTestParams,
      pCurrentParams = None, mapArgs = args\<rparr>"

fun deref :: "Globals \<Rightarrow> ParamsRef \<Rightarrow> CChainParams" where
  "deref g Ref_mainParams = mainParams g"
| "deref g Ref_testNetParams = testNetParams g"
| "deref g Ref_regTestParams = regTestParams g"

text \<open>
  Modelled from the spec: the names \<^verbatim>\<open>CBaseChainParams::MAIN\<close>, \<^verbatim>\<open>TESTNET\<close> and \<^verbatim>\<open>REGTEST\<close> are
  defined outside the file; they are the network names "main", "test" and "regtest", which
  the three constructors store in \<^verbatim>\<open>strNetworkID\<close>.
\<close>

definition CBaseChainParams_MAIN :: string where
  "CBaseChainParams_MAIN = ''main''"

definition CBaseChainParams_TESTNET :: string where
  "CBaseChainParams_TESTNET = ''test''"

definition CBaseChainParams_REGTEST :: string where
  "CBaseChainParams_REGTEST = ''regtest''"

text \<open>\<^verbatim>\<open>const CChainParams &Params()\<close>.\<close>

definition Params_current :: "Globals \<Rightarrow> error + CChainParams" where
  "Params_current g =
     (case pCurrentParams g of None \<Rightarrow> Inl AssertionFailure | Some r \<Rightarrow> Inr (deref g r))"

text \<open>
  \<^verbatim>\<open>CChainParams& Params(const std::string& chain)\<close>; the message is that of
  \<^verbatim>\<open>strprintf("%s: Unknown chain %s.", __func__, chain)\<close>.
\<close>

definition Params_chain :: "string \<Rightarrow> error + ParamsRef" where
  "Params_chain chain =
     (if chain = CBaseChainParams_MAIN then Inr Ref_mainParams
      else if chain = CBaseChainParams_TESTNET then Inr Ref_testNetParams
      else if chain = CBaseChainParams_REGTEST then Inr Ref_regTestParams
      else Inl (RuntimeError (''Params: Unknown chain '' @ chain @ ''.'')))"

text \<open>
  \<^verbatim>\<open>SelectParams\<close> returns the exception that left it, if any, and the state it leaves.
\<close>

definition SelectParams :: "Externals \<Rightarrow> string \<Rightarrow> Globals \<Rightarrow> error option \<times> Globals" where
  "SelectParams ext network g =
     (case SelectBaseParams ext network of
        Some e \<Rightarrow> (Some e, g)
      | None \<Rightarrow>
         (case Params_chain network of
            Inl e \<Rightarrow> (Some e, g)
          | Inr r \<Rightarrow>
             (let g1 = g\<lparr>pCurrentParams := Some r\<rparr>;
                  g2 = (if network = CBaseChainParams_REGTEST
                           \<and> mapArgs g1 ''-regtestshieldcoinbase'' \<noteq> None
                        then g1\<lparr>regTestParams :=
                                  SetRegTestCoinbaseMustBeShielded ext (regTestParams g1)\<rparr>
                        else g1);
                  g3 = (if network = CBaseChainParams_REGTEST
                           \<and> mapArgs g2 ''-developersetpoolsizezero'' \<noteq> None
                        then g2\<lparr>regTestParams := SetRegTestZIP209Enabled (regTestParams g2)\<rparr>
                        else g2)
              in (None, g3))))"

text \<open>
  The free function \<^verbatim>\<open>UpdateNetworkUpgradeParameters\<close>: it calls the member function of the
  static \<^verbatim>\<open>regTestParams\<close>. A failed assertion aborts the process in the state it found.
\<close>

definition UpdateNetworkUpgradeParameters ::
    "UpgradeIndex \<Rightarrow> int \<Rightarrow> Globals \<Rightarrow> error option \<times> Globals" where
  "UpdateNetworkUpgradeParameters idx nActivationHeight' g =
     (case CRegTestParams_UpdateNetworkUpgradeParameters idx nActivationHeight' (regTestParams g) of
        Inl e \<Rightarrow> (Some e, g)
      | Inr r \<Rightarrow> (None, g\<lparr>regTestParams := r\<rparr>))"

subsection \<open>The rotation as the spec words it\<close>

text \<open>
  The spec gives the pre-fork rotation as \<open>interval = ceil(maxHeight / legacyListSize)\<close> and
  \<open>index = floor(height' / interval)\<close>. These two definitions follow the spec's words, to be
  compared with \<open>legacyAddressChangeInterval\<close> and \<open>legacyAddressIndex\<close>.
\<close>

definition spec_addressChangeInterval :: "int \<Rightarrow> nat \<Rightarrow> int" where
  "spec_addressChangeInterval maxHeight legacyListSize =
     \<lceil>real_of_int maxHeight / real legacyListSize\<rceil>"

definition spec_legacyAddressIndex :: "int \<Rightarrow> int \<Rightarrow> nat \<Rightarrow> int" where
  "spec_legacyAddressIndex height' maxHeight legacyListSize =
     \<lfloor>real_of_int height' / real_of_int (spec_addressChangeInterval maxHeight legacyListSize)\<rfloor>"

subsection \<open>Example inputs\<close>

text \<open>
  Stand-ins for the collaborators, used at concrete inputs only: a spacing ratio of 2, a
  last legacy reward height of 480, a re-encoding that tags the legacy address, 0 as the
  inherit-default value, a base selection that never throws.
\<close>

definition example_Externals :: Externals where
  "example_Externals =
     \<lparr>BLOSSOM_POW_TARGET_SPACING_RATIO = 2,
      GetLastFoundersRewardBlockHeight = (\<lambda>params nHeight. 480),
      ZecToYec = (\<lambda>this address. ''yec:'' @ address),
      DEFAULT_PARAMS = 0,
      SelectBaseParams = (\<lambda>chain. None),
      SetRegTestCoinbaseMustBeShielded =
        (\<lambda>this. this\<lparr>consensus := (consensus this)\<lparr>fCoinbaseMustBeShielded := True\<rparr>\<rparr>)\<rparr>"

text \<open>
  Regtest schedules as the mutator produces them from the initial state: the fork activated
  at height 1000, and Blossom activated at height 100. The last is also put on the testnet's
  address lists, for a network with 48 legacy addresses on which Blossom is active before
  the fork.
\<close>

definition example_regtest_ycash :: CChainParams where
  "example_regtest_ycash =
     regTestParams (snd (UpdateNetworkUpgradeParameters UPGRADE_YCASH 1000 (static_init Map.empty)))"

definition example_regtest_blossom :: CChainParams where
  "example_regtest_blossom =
     regTestParams (snd (UpdateNetworkUpgradeParameters UPGRADE_BLOSSOM 100 (static_init Map.empty)))"

definition example_blossom_network :: CChainParams where
  "example_blossom_network = CTestNetParams\<lparr>consensus := consensus example_regtest_blossom\<rparr>"

text \<open>
  An Equihash table: every entry inherits the default, then the developer hook sets
  \<open>N = 192\<close> for the fork's epoch and leaves its \<open>K\<close> at the inherit-default value.
\<close>

definition example_EquihashUpgradeInfo :: "EquihashInfo list" where
  "example_EquihashUpgradeInfo =
     (case UpdateEquihashUpgradeParameters UPGRADE_YCASH 192 (DEFAULT_PARAMS example_Externals)
             (replicate 10 \<lparr>N = DEFAULT_PARAMS example_Externals,
                            K = DEFAULT_PARAMS example_Externals\<rparr>)
      of Inr table \<Rightarrow> table | Inl e \<Rightarrow> [])"

text \<open>The state after the process has selected the main network, with no arguments set.\<close>

definition example_main_selected :: Globals where
  "example_main_selected = snd (SelectParams example_Externals ''main'' (static_init Map.empty))"

section \<open>Properties\<close>

subsection \<open>Arithmetic of the conversions and of the interval\<close>

lemma size_t_of_int_nat: "0 \<le> x \<Longrightarrow> x < 2 ^ 64 \<Longrightarrow> size_t_of_int x = nat x"
  by (simp add: size_t_of_int_def)

lemma int_div_floor: "0 \<le> a \<Longrightarrow> 0 < b \<Longrightarrow> int_div a b = a div b"
  by (cases "a = 0") (simp_all add: int_div_def)

lemma upper_multiple_bound:
  fixes p n :: nat
  assumes "0 < n"
  shows "p < n * (p div n + 1)"
proof -
  have "p = n * (p div n) + p mod n" by simp
  moreover have "p mod n < n" using assms by simp
  ultimately have "p < n * (p div n) + n" by linarith
  then show ?thesis by (simp add: algebra_simps)
qed

lemma div_succ_interval_less:
  fixes h p n :: nat
  assumes "0 < n" and "h \<le> p"
  shows "h div ((p + n) div n) < n"
proof -
  have k: "(p + n) div n = p div n + 1"
    using assms by simp
  have "h < n * (p div n + 1)"
    using upper_multiple_bound [OF assms(1), of p] assms(2) by simp
  then show ?thesis
    unfolding k by (simp add: less_mult_imp_div_less)
qed

lemma neg_succ_div:
  fixes m :: int and n :: nat
  assumes "0 < n"
  shows "(- 1 - m) div int n = - 1 - m div int n"
proof (rule int_div_pos_eq [where r = "int n - 1 - m mod int n"])
  have "m = int n * (m div int n) + m mod int n" by simp
  then show "- 1 - m = int n * (- 1 - m div int n) + (int n - 1 - m mod int n)"
    by (simp add: algebra_simps)
  have "m mod int n < int n" using assms by simp
  then show "0 \<le> int n - 1 - m mod int n" by simp
  have "0 \<le> m mod int n" using assms by simp
  then show "int n - 1 - m mod int n < int n" by simp
qed

lemma interval_as_ceiling:
  assumes "0 < n"
  shows "(m + int n) div int n = \<lceil>real_of_int (m + 1) / real n\<rceil>"
proof -
  have "\<lceil>real_of_int (m + 1) / real n\<rceil> = - ((- (m + 1)) div int n)"
    by (metis ceiling_divide_eq_div of_int_of_nat_eq)
  also have "\<dots> = - ((- 1 - m) div int n)" by (simp add: algebra_simps)
  also have "\<dots> = 1 + m div int n" using neg_succ_div [OF assms, of m] by simp
  also have "\<dots> = (m + int n) div int n" using assms by simp
  finally show ?thesis by simp
qed

lemma spec_addressChangeInterval_exact:
  assumes "0 < n" and "int n dvd m"
  shows "spec_addressChangeInterval m n = m div int n"
proof -
  have "spec_addressChangeInterval m n = - ((- m) div int n)"
    unfolding spec_addressChangeInterval_def
    by (metis ceiling_divide_eq_div of_int_of_nat_eq)
  also have "\<dots> = m div int n"
    using assms(2) by (simp add: dvd_neg_div)
  finally show ?thesis .
qed

subsection \<open>The pre-fork branch under its precondition\<close>

lemma legacyAddressChangeInterval_no_wrap:
  assumes "0 \<le> GetLastFoundersRewardBlockHeight ext (consensus this) 0"
    and "GetLastFoundersRewardBlockHeight ext (consensus this) 0
           + int (length (vFoundersRewardAddress this)) < 2 ^ 64"
  shows "legacyAddressChangeInterval ext this =
           (nat (GetLastFoundersRewardBlockHeight ext (consensus this) 0)
              + length (vFoundersRewardAddress this)) div length (vFoundersRewardAddress this)"
proof -
  let ?pre = "GetLastFoundersRewardBlockHeight ext (consensus this) 0"
  let ?n = "length (vFoundersRewardAddress this)"
  have pre: "size_t_of_int ?pre = nat ?pre"
    using assms by (intro size_t_of_int_nat) auto
  have "nat ?pre + ?n < 2 ^ 64"
    using assms by (simp add: nat_less_iff nat_add_distrib)
  then have "size_t_add (nat ?pre) ?n = nat ?pre + ?n"
    by (simp add: size_t_add_def)
  with pre show ?thesis
    by (simp add: legacyAddressChangeInterval_def)
qed

lemma legacyFoundersRewardAddress_result:
  assumes pos: "0 < h'"
    and le: "h' \<le> GetLastFoundersRewardBlockHeight ext (consensus this) 0"
    and ne: "vFoundersRewardAddress this \<noteq> []"
    and fit: "GetLastFoundersRewardBlockHeight ext (consensus this) 0
                + int (length (vFoundersRewardAddress this)) < 2 ^ 64"
  shows "legacyAddressChangeInterval ext this =
           (nat (GetLastFoundersRewardBlockHeight ext (consensus this) 0)
              + length (vFoundersRewardAddress this)) div length (vFoundersRewardAddress this)"
    and "legacyAddressIndex ext this h' = nat h' div legacyAddressChangeInterval ext this"
    and "legacyAddressIndex ext this h' < length (vFoundersRewardAddress this)"
    and "legacyFoundersRewardAddress ext this h' =
           Inr (ZecToYec ext this (vFoundersRewardAddress this ! legacyAddressIndex ext this h'))"
proof -
  let ?pre = "GetLastFoundersRewardBlockHeight ext (consensus this) 0"
  let ?n = "length (vFoundersRewardAddress this)"
  have n: "0 < ?n" using ne by simp
  have pre0: "0 \<le> ?pre" using pos le by simp
  show iv: "legacyAddressChangeInterval ext this = (nat ?pre + ?n) div ?n"
    using pre0 fit by (rule legacyAddressChangeInterval_no_wrap)
  have "h' < 2 ^ 64" using le fit by simp
  then have conv: "size_t_of_int h' = nat h'"
    using pos by (intro size_t_of_int_nat) auto
  show ix: "legacyAddressIndex ext this h' = nat h' div legacyAddressChangeInterval ext this"
    by (simp add: legacyAddressIndex_def conv)
  have "nat h' \<le> nat ?pre" using le by simp
  then have "nat h' div ((nat ?pre + ?n) div ?n) < ?n"
    using n by (intro div_succ_interval_less)
  then show lt: "legacyAddressIndex ext this h' < ?n"
    by (simp add: ix iv)
  have "(nat ?pre + ?n) div ?n = nat ?pre div ?n + 1" using n by simp
  then have iv0: "legacyAddressChangeInterval ext this \<noteq> 0" by (simp add: iv)
  show "legacyFoundersRewardAddress ext this h' =
           Inr (ZecToYec ext this (vFoundersRewardAddress this ! legacyAddressIndex ext this h'))"
    using pos le ne iv0 lt by (simp add: legacyFoundersRewardAddress_def Let_def)
qed

lemma legacyAddressIndex_int:
  assumes pos: "0 < h'"
    and le: "h' \<le> GetLastFoundersRewardBlockHeight ext (consensus this) 0"
    and ne: "vFoundersRewardAddress this \<noteq> []"
    and fit: "GetLastFoundersRewardBlockHeight ext (consensus this) 0
                + int (length (vFoundersRewardAddress this)) < 2 ^ 64"
  shows "int (legacyAddressIndex ext this h') =
           h' div ((GetLastFoundersRewardBlockHeight ext (consensus this) 0
                      + int (length (vFoundersRewardAddress this)))
                    div int (length (vFoundersRewardAddress this)))"
proof -
  let ?pre = "GetLastFoundersRewardBlockHeight ext (consensus this) 0"
  let ?n = "length (vFoundersRewardAddress this)"
  have pre0: "0 \<le> ?pre" using pos le by simp
  have "legacyAddressIndex ext this h' = nat h' div ((nat ?pre + ?n) div ?n)"
    using legacyFoundersRewardAddress_result(1,2) [OF assms] by simp
  then have "int (legacyAddressIndex ext this h') = int (nat h') div ((int (nat ?pre) + int ?n) div int ?n)"
    by (simp add: zdiv_int)
  then show ?thesis using pos pre0 by simp
qed

lemma NetworkUpgradeActive_mono:
  "NetworkUpgradeActive params h idx \<Longrightarrow> h \<le> h' \<Longrightarrow> NetworkUpgradeActive params h' idx"
  by (auto simp: NetworkUpgradeActive_def Let_def)

lemma NetworkUpgradeActive_ge:
  "NetworkUpgradeActive params h idx \<Longrightarrow>
     nActivationHeight (vUpgrades params ! upgrade_index idx) \<le> h"
  by (simp add: NetworkUpgradeActive_def Let_def)

lemma GetFoundersRewardAddressAtHeight_prefork:
  "\<not> NetworkUpgradeActive (consensus this) nHeight UPGRADE_YCASH \<Longrightarrow>
     GetFoundersRewardAddressAtHeight ext this nHeight =
       legacyFoundersRewardAddress ext this (FounderAddressAdjustedHeight ext this nHeight)"
  by (simp add: GetFoundersRewardAddressAtHeight_def)

lemma FounderAddressAdjustedHeight_inactive:
  "\<not> NetworkUpgradeActive (consensus this) nHeight UPGRADE_BLOSSOM \<Longrightarrow>
     FounderAddressAdjustedHeight ext this nHeight = nHeight"
  by (simp add: FounderAddressAdjustedHeight_def)

subsection \<open>Facts about the example inputs\<close>

lemma example_regtest_ycash_simps:
  "vUpgrades (consensus example_regtest_ycash) ! upgrade_index UPGRADE_YCASH =
     \<lparr>nProtocolVersion = 270007, nActivationHeight = 1000\<rparr>"
  "vYcashFoundersRewardAddress example_regtest_ycash = CRegTestParams_vYcashFoundersRewardAddress"
  by (simp_all add: example_regtest_ycash_def UpdateNetworkUpgradeParameters_def
      CRegTestParams_UpdateNetworkUpgradeParameters_def static_init_def CRegTestParams_def)

lemma example_blossom_network_simps:
  "vUpgrades (consensus example_blossom_network) ! upgrade_index UPGRADE_BLOSSOM =
     \<lparr>nProtocolVersion = 270008, nActivationHeight = 100\<rparr>"
  "vUpgrades (consensus example_blossom_network) ! upgrade_index UPGRADE_YCASH =
     \<lparr>nProtocolVersion = 270007, nActivationHeight = NO_ACTIVATION_HEIGHT\<rparr>"
  "vFoundersRewardAddress example_blossom_network = CTestNetParams_vFoundersRewardAddress"
  by (simp_all add: example_blossom_network_def example_regtest_blossom_def
      UpdateNetworkUpgradeParameters_def CRegTestParams_UpdateNetworkUpgradeParameters_def
      static_init_def CRegTestParams_def CTestNetParams_def)

lemma example_Externals_simps:
  "BLOSSOM_POW_TARGET_SPACING_RATIO example_Externals = 2"
  "GetLastFoundersRewardBlockHeight example_Externals params nHeight = 480"
  "ZecToYec example_Externals this address = ''yec:'' @ address"
  "DEFAULT_PARAMS example_Externals = 0"
  "SelectBaseParams example_Externals chain = None"
  by (simp_all add: example_Externals_def)

lemma example_blossom_network_adjusted:
  "FounderAddressAdjustedHeight example_Externals example_blossom_network 50 = 50"
  "FounderAddressAdjustedHeight example_Externals example_blossom_network 301 = 200"
  by (simp_all add: FounderAddressAdjustedHeight_def NetworkUpgradeActive_def int_div_def
      NO_ACTIVATION_HEIGHT_def example_blossom_network_simps example_Externals_simps del: upgrade_index.simps)

lemma CMainParams_epochs:
  "CurrentEpoch 100 (consensus CMainParams) = BASE_SPROUT"
  "CurrentEpoch 600000 (consensus CMainParams) = UPGRADE_YCASH"
  by (simp_all add: CurrentEpoch_def NetworkUpgradeActive_def NO_ACTIVATION_HEIGHT_def
      ALWAYS_ACTIVE_def CMainParams_def)

subsection \<open>Bounds of the legacy index\<close>

text \<open>
  C10: for every height of the pre-fork regime whose adjusted height \<open>h'\<close> satisfies
  \<open>0 < h' \<le> preBlossomMaxHeight\<close>, and for any non-empty legacy list, the index that
  \<^verbatim>\<open>GetFoundersRewardAddressAtHeight\<close> computes is
  \<open>floor(h' / ((preBlossomMaxHeight + listSize) / listSize))\<close>, it is strictly less than the
  size of the list, and the function returns the entry at that index: the read is never
  out of bounds. At \<open>h' = preBlossomMaxHeight\<close> the spec's interval
  \<open>ceil(maxHeight / listSize)\<close> would give the index \<open>listSize\<close>, one past the end, when the
  list size divides the maximal height. (The sum of the \<^verbatim>\<open>int\<close> and the vector's size is
  below \<open>2 ^ 64\<close> for every \<^verbatim>\<open>int\<close> and every vector.)
\<close>

theorem legacy_index_in_bounds:
  assumes "\<not> NetworkUpgradeActive (consensus this) nHeight UPGRADE_YCASH"
    and "0 < FounderAddressAdjustedHeight ext this nHeight"
    and "FounderAddressAdjustedHeight ext this nHeight
           \<le> GetLastFoundersRewardBlockHeight ext (consensus this) 0"
    and "vFoundersRewardAddress this \<noteq> []"
    and "GetLastFoundersRewardBlockHeight ext (consensus this) 0
           + int (length (vFoundersRewardAddress this)) < 2 ^ 64"
  shows "int (legacyAddressIndex ext this (FounderAddressAdjustedHeight ext this nHeight)) =
           \<lfloor>real_of_int (FounderAddressAdjustedHeight ext this nHeight)
              / real_of_int ((GetLastFoundersRewardBlockHeight ext (consensus this) 0
                               + int (length (vFoundersRewardAddress this)))
                             div int (length (vFoundersRewardAddress this)))\<rfloor>
         \<and> legacyAddressIndex ext this (FounderAddressAdjustedHeight ext this nHeight)
             < length (vFoundersRewardAddress this)
         \<and> GetFoundersRewardAddressAtHeight ext this nHeight =
             Inr (ZecToYec ext this
                    (vFoundersRewardAddress this
                       ! legacyAddressIndex ext this (FounderAddressAdjustedHeight ext this nHeight)))
         \<and> (int (length (vFoundersRewardAddress this))
               dvd GetLastFoundersRewardBlockHeight ext (consensus this) 0 \<longrightarrow>
             spec_legacyAddressIndex
               (GetLastFoundersRewardBlockHeight ext (consensus this) 0)
               (GetLastFoundersRewardBlockHeight ext (consensus this) 0)
               (length (vFoundersRewardAddress this))
             = int (length (vFoundersRewardAddress this)))"
proof -
  let ?pre = "GetLastFoundersRewardBlockHeight ext (consensus this) 0"
  let ?n = "length (vFoundersRewardAddress this)"
  let ?h = "FounderAddressAdjustedHeight ext this nHeight"
  note pre = assms(2-5)
  have n: "0 < ?n" using assms(4) by simp
  have pre0: "0 < ?pre" using assms(2,3) by simp
  have "int (legacyAddressIndex ext this ?h) = ?h div ((?pre + int ?n) div int ?n)"
    by (rule legacyAddressIndex_int [OF pre])
  then have a: "int (legacyAddressIndex ext this ?h) =
      \<lfloor>real_of_int ?h / real_of_int ((?pre + int ?n) div int ?n)\<rfloor>"
    by (simp only: floor_divide_of_int_eq)
  have b: "legacyAddressIndex ext this ?h < ?n"
    by (rule legacyFoundersRewardAddress_result(3) [OF pre])
  have c: "GetFoundersRewardAddressAtHeight ext this nHeight =
      Inr (ZecToYec ext this (vFoundersRewardAddress this ! legacyAddressIndex ext this ?h))"
    using legacyFoundersRewardAddress_result(4) [OF pre]
    by (simp add: GetFoundersRewardAddressAtHeight_prefork [OF assms(1)])
  have d: "spec_legacyAddressIndex ?pre ?pre ?n = int ?n" if dv: "int ?n dvd ?pre"
  proof -
    have "spec_addressChangeInterval ?pre ?n = ?pre div int ?n"
      using n dv by (rule spec_addressChangeInterval_exact)
    then have "spec_legacyAddressIndex ?pre ?pre ?n = ?pre div (?pre div int ?n)"
      by (simp only: spec_legacyAddressIndex_def floor_divide_of_int_eq)
    also have "\<dots> = int ?n"
      using dv pre0 n by (auto elim!: dvdE)
    finally show ?thesis .
  qed
  from a b c d show ?thesis by blast
qed

theorem legacy_index_in_bounds_witness:
  "\<not> NetworkUpgradeActive (consensus CMainParams) 480 UPGRADE_YCASH
   \<and> FounderAddressAdjustedHeight example_Externals CMainParams 480 = 480
   \<and> GetLastFoundersRewardBlockHeight example_Externals (consensus CMainParams) 0 = 480
   \<and> length (vFoundersRewardAddress CMainParams) = 48
   \<and> legacyAddressIndex example_Externals CMainParams 480 = 43
   \<and> GetFoundersRewardAddressAtHeight example_Externals CMainParams 480 =
       Inr (ZecToYec example_Externals CMainParams (vFoundersRewardAddress CMainParams ! 43))
   \<and> spec_legacyAddressIndex 480 480 48 = 48"
proof -
  have h1: "\<not> NetworkUpgradeActive (consensus CMainParams) 480 UPGRADE_YCASH"
    by (simp add: NetworkUpgradeActive_def CMainParams_def)
  have h2: "FounderAddressAdjustedHeight example_Externals CMainParams 480 = 480"
    by (simp add: FounderAddressAdjustedHeight_def NetworkUpgradeActive_def CMainParams_def)
  have h3: "GetLastFoundersRewardBlockHeight example_Externals (consensus CMainParams) 0 = 480"
    by (simp add: example_Externals_def)
  have h4: "length (vFoundersRewardAddress CMainParams) = 48"
    by (simp add: CMainParams_def CMainParams_vFoundersRewardAddress_def)
  have h5: "vFoundersRewardAddress CMainParams \<noteq> []"
    using h4 by auto
  have "int (legacyAddressIndex example_Externals CMainParams 480) = 43
        \<and> GetFoundersRewardAddressAtHeight example_Externals CMainParams 480 =
            Inr (ZecToYec example_Externals CMainParams
                   (vFoundersRewardAddress CMainParams
                      ! legacyAddressIndex example_Externals CMainParams 480))
        \<and> spec_legacyAddressIndex 480 480 48 = 48"
    using legacy_index_in_bounds [of CMainParams 480 example_Externals, OF h1] h5
    by (simp add: h2 h3 h4)
  then show ?thesis using h1 h2 h3 h4 by simp
qed

subsection \<open>The pre-fork rotation\<close>

text \<open>
  C1, as the claim states it, at a concrete input: on the main network with a last legacy
  reward height of 480 (48 legacy addresses, no rescaling at height 100), the spec's
  \<open>interval = ceil(480 / 48) = 10\<close> and \<open>index = floor(100 / 10) = 10\<close> name the entry 10,
  while \<^verbatim>\<open>GetFoundersRewardAddressAtHeight(100)\<close> returns the entry 9.
\<close>

theorem prefork_rotation_counterexample:
  "\<not> NetworkUpgradeActive (consensus CMainParams) 100 UPGRADE_YCASH
   \<and> FounderAddressAdjustedHeight example_Externals CMainParams 100 = 100
   \<and> GetLastFoundersRewardBlockHeight example_Externals (consensus CMainParams) 0 = 480
   \<and> length (vFoundersRewardAddress CMainParams) = 48
   \<and> spec_addressChangeInterval 480 48 = 10
   \<and> spec_legacyAddressIndex 100 480 48 = 10
   \<and> GetFoundersRewardAddressAtHeight example_Externals CMainParams 100 =
       Inr (ZecToYec example_Externals CMainParams (vFoundersRewardAddress CMainParams ! 9))
   \<and> GetFoundersRewardAddressAtHeight example_Externals CMainParams 100 \<noteq>
       Inr (ZecToYec example_Externals CMainParams
              (vFoundersRewardAddress CMainParams ! nat (spec_legacyAddressIndex 100 480 48)))"
proof -
  have iv: "spec_addressChangeInterval 480 48 = 10"
    by (simp add: spec_addressChangeInterval_def)
  have ix: "spec_legacyAddressIndex 100 480 48 = 10"
    by (simp add: spec_legacyAddressIndex_def iv)
  have "\<not> NetworkUpgradeActive (consensus CMainParams) 100 UPGRADE_YCASH"
    by (simp add: NetworkUpgradeActive_def CMainParams_def)
  moreover have "FounderAddressAdjustedHeight example_Externals CMainParams 100 = 100"
    by (simp add: FounderAddressAdjustedHeight_def NetworkUpgradeActive_def CMainParams_def)
  moreover have "GetLastFoundersRewardBlockHeight example_Externals (consensus CMainParams) 0 = 480"
    by (simp add: example_Externals_def)
  moreover have "length (vFoundersRewardAddress CMainParams) = 48"
    by (simp add: CMainParams_def CMainParams_vFoundersRewardAddress_def)
  moreover have "GetFoundersRewardAddressAtHeight example_Externals CMainParams 100 =
       Inr ''yec:t3RYnsc5nhEvKiva3ZPhfRSk7eyh1CrA6Rk''"
    by (simp add: GetFoundersRewardAddressAtHeight_def legacyFoundersRewardAddress_def
        legacyAddressIndex_def legacyAddressChangeInterval_def FounderAddressAdjustedHeight_def
        NetworkUpgradeActive_def example_Externals_def CMainParams_def
        CMainParams_vFoundersRewardAddress_def size_t_add_def size_t_of_int_def)
  moreover have "ZecToYec example_Externals CMainParams (vFoundersRewardAddress CMainParams ! 9) =
       ''yec:t3RYnsc5nhEvKiva3ZPhfRSk7eyh1CrA6Rk''"
    by (simp add: example_Externals_def CMainParams_def CMainParams_vFoundersRewardAddress_def)
  moreover have "ZecToYec example_Externals CMainParams (vFoundersRewardAddress CMainParams ! 10) =
       ''yec:t3Ut4KUq2ZSMTPNE67pBU5LqYCi2q36KpXQ''"
    by (simp add: example_Externals_def CMainParams_def CMainParams_vFoundersRewardAddress_def)
  ultimately show ?thesis
    by (simp add: iv ix)
qed

text \<open>
  C1, amended: in the pre-fork regime, under the precondition
  \<open>0 < height' \<le> maxHeight\<close> on the (possibly rescaled) height and for a non-empty legacy
  list, \<^verbatim>\<open>GetFoundersRewardAddressAtHeight\<close> computes
  \<open>interval = floor((maxHeight + legacyListSize) / legacyListSize)\<close>, which is
  \<open>ceil((maxHeight + 1) / legacyListSize)\<close>, and \<open>index = floor(height' / interval)\<close>, and
  returns the legacy-list entry at that index re-encoded by \<^verbatim>\<open>ZecToYec\<close>.
\<close>

theorem prefork_rotation_formula:
  assumes "\<not> NetworkUpgradeActive (consensus this) nHeight UPGRADE_YCASH"
    and "0 < FounderAddressAdjustedHeight ext this nHeight"
    and "FounderAddressAdjustedHeight ext this nHeight
           \<le> GetLastFoundersRewardBlockHeight ext (consensus this) 0"
    and "vFoundersRewardAddress this \<noteq> []"
    and "GetLastFoundersRewardBlockHeight ext (consensus this) 0
           + int (length (vFoundersRewardAddress this)) < 2 ^ 64"
  shows "let maxHeight = GetLastFoundersRewardBlockHeight ext (consensus this) 0;
             legacyListSize = length (vFoundersRewardAddress this);
             height' = FounderAddressAdjustedHeight ext this nHeight;
             interval = \<lceil>real_of_int (maxHeight + 1) / real legacyListSize\<rceil>;
             index = \<lfloor>real_of_int height' / real_of_int interval\<rfloor>
         in interval = (maxHeight + int legacyListSize) div int legacyListSize
            \<and> int (legacyAddressChangeInterval ext this) = interval
            \<and> int (legacyAddressIndex ext this height') = index
            \<and> GetFoundersRewardAddressAtHeight ext this nHeight =
                Inr (ZecToYec ext this (vFoundersRewardAddress this ! nat index))"
proof -
  let ?pre = "GetLastFoundersRewardBlockHeight ext (consensus this) 0"
  let ?n = "length (vFoundersRewardAddress this)"
  let ?h = "FounderAddressAdjustedHeight ext this nHeight"
  let ?iv = "\<lceil>real_of_int (?pre + 1) / real ?n\<rceil>"
  let ?ix = "\<lfloor>real_of_int ?h / real_of_int ?iv\<rfloor>"
  note pre = assms(2-5)
  have n: "0 < ?n" using assms(4) by simp
  have pre0: "0 \<le> ?pre" using assms(2,3) by simp
  have a: "?iv = (?pre + int ?n) div int ?n"
    using interval_as_ceiling [OF n, of ?pre] by simp
  have "legacyAddressChangeInterval ext this = (nat ?pre + ?n) div ?n"
    by (rule legacyFoundersRewardAddress_result(1) [OF pre])
  then have "int (legacyAddressChangeInterval ext this) = (int (nat ?pre) + int ?n) div int ?n"
    by (simp add: zdiv_int)
  then have b: "int (legacyAddressChangeInterval ext this) = ?iv"
    using pre0 a by simp
  have "int (legacyAddressIndex ext this ?h) = ?h div ((?pre + int ?n) div int ?n)"
    by (rule legacyAddressIndex_int [OF pre])
  then have c: "int (legacyAddressIndex ext this ?h) = ?ix"
    by (simp only: a floor_divide_of_int_eq)
  have "GetFoundersRewardAddressAtHeight ext this nHeight =
      Inr (ZecToYec ext this (vFoundersRewardAddress this ! legacyAddressIndex ext this ?h))"
    using legacyFoundersRewardAddress_result(4) [OF pre]
    by (simp add: GetFoundersRewardAddressAtHeight_prefork [OF assms(1)])
  moreover have "legacyAddressIndex ext this ?h = nat ?ix"
    using c by simp
  ultimately have d: "GetFoundersRewardAddressAtHeight ext this nHeight =
      Inr (ZecToYec ext this (vFoundersRewardAddress this ! nat ?ix))"
    by simp
  from a b c d show ?thesis by (simp only: Let_def)
qed

theorem prefork_rotation_formula_witness:
  "\<not> NetworkUpgradeActive (consensus CMainParams) 100 UPGRADE_YCASH
   \<and> FounderAddressAdjustedHeight example_Externals CMainParams 100 = 100
   \<and> GetLastFoundersRewardBlockHeight example_Externals (consensus CMainParams) 0 = 480
   \<and> length (vFoundersRewardAddress CMainParams) = 48
   \<and> legacyAddressChangeInterval example_Externals CMainParams = 11
   \<and> legacyAddressIndex example_Externals CMainParams 100 = 9
   \<and> GetFoundersRewardAddressAtHeight example_Externals CMainParams 100 =
       Inr (ZecToYec example_Externals CMainParams (vFoundersRewardAddress CMainParams ! 9))"
proof -
  have h1: "\<not> NetworkUpgradeActive (consensus CMainParams) 100 UPGRADE_YCASH"
    by (simp add: NetworkUpgradeActive_def CMainParams_def)
  have h2: "FounderAddressAdjustedHeight example_Externals CMainParams 100 = 100"
    by (simp add: FounderAddressAdjustedHeight_def NetworkUpgradeActive_def CMainParams_def)
  have h3: "GetLastFoundersRewardBlockHeight example_Externals (consensus CMainParams) 0 = 480"
    by (simp add: example_Externals_def)
  have h4: "length (vFoundersRewardAddress CMainParams) = 48"
    by (simp add: CMainParams_def CMainParams_vFoundersRewardAddress_def)
  have h5: "vFoundersRewardAddress CMainParams \<noteq> []"
    using h4 by auto
  have "int (legacyAddressChangeInterval example_Externals CMainParams) = 11
        \<and> int (legacyAddressIndex example_Externals CMainParams 100) = 9
        \<and> GetFoundersRewardAddressAtHeight example_Externals CMainParams 100 =
            Inr (ZecToYec example_Externals CMainParams (vFoundersRewardAddress CMainParams ! 9))"
    using prefork_rotation_formula [of CMainParams 100 example_Externals, OF h1] h5
    by (simp add: h2 h3 h4 Let_def)
  then show ?thesis using h1 h2 h3 h4 by simp
qed

text \<open>
  C2, as the claim states it, at a concrete input: on the main network with a last legacy
  reward height of 480 (48 legacy addresses, neither the fork nor Blossom active up to
  height 480), \<^verbatim>\<open>GetFoundersRewardAddressAtHeight(240)\<close> is the entry 21 and not the entry 24,
  and \<^verbatim>\<open>GetFoundersRewardAddressAtHeight(480)\<close> is the entry 43 and not the entry 47.
\<close>

theorem scenario_48_480_counterexample:
  "length (vFoundersRewardAddress CMainParams) = 48
   \<and> GetLastFoundersRewardBlockHeight example_Externals (consensus CMainParams) 0 = 480
   \<and> \<not> NetworkUpgradeActive (consensus CMainParams) 480 UPGRADE_YCASH
   \<and> \<not> NetworkUpgradeActive (consensus CMainParams) 480 UPGRADE_BLOSSOM
   \<and> GetFoundersRewardAddressAtHeight example_Externals CMainParams 240 =
       Inr (ZecToYec example_Externals CMainParams (vFoundersRewardAddress CMainParams ! 21))
   \<and> GetFoundersRewardAddressAtHeight example_Externals CMainParams 240 \<noteq>
       Inr (ZecToYec example_Externals CMainParams (vFoundersRewardAddress CMainParams ! 24))
   \<and> GetFoundersRewardAddressAtHeight example_Externals CMainParams 480 =
       Inr (ZecToYec example_Externals CMainParams (vFoundersRewardAddress CMainParams ! 43))
   \<and> GetFoundersRewardAddressAtHeight example_Externals CMainParams 480 \<noteq>
       Inr (ZecToYec example_Externals CMainParams (vFoundersRewardAddress CMainParams ! 47))"
proof -
  have "length (vFoundersRewardAddress CMainParams) = 48"
    by (simp add: CMainParams_def CMainParams_vFoundersRewardAddress_def)
  moreover have "GetLastFoundersRewardBlockHeight example_Externals (consensus CMainParams) 0 = 480"
    by (simp add: example_Externals_def)
  moreover have "\<not> NetworkUpgradeActive (consensus CMainParams) 480 UPGRADE_YCASH"
    by (simp add: NetworkUpgradeActive_def CMainParams_def)
  moreover have "\<not> NetworkUpgradeActive (consensus CMainParams) 480 UPGRADE_BLOSSOM"
    by (simp add: NetworkUpgradeActive_def CMainParams_def)
  moreover have "GetFoundersRewardAddressAtHeight example_Externals CMainParams 240 =
       Inr ''yec:t3LTWeoxeWPbmdkUD3NWBquk4WkazhFBmvU''"
    by (simp add: GetFoundersRewardAddressAtHeight_def legacyFoundersRewardAddress_def
        legacyAddressIndex_def legacyAddressChangeInterval_def FounderAddressAdjustedHeight_def
        NetworkUpgradeActive_def example_Externals_def CMainParams_def
        CMainParams_vFoundersRewardAddress_def size_t_add_def size_t_of_int_def)
  moreover have "GetFoundersRewardAddressAtHeight example_Externals CMainParams 480 =
       Inr ''yec:t3MEXDF9Wsi63KwpPuQdD6by32Mw2bNTbEa''"
    by (simp add: GetFoundersRewardAddressAtHeight_def legacyFoundersRewardAddress_def
        legacyAddressIndex_def legacyAddressChangeInterval_def FounderAddressAdjustedHeight_def
        NetworkUpgradeActive_def example_Externals_def CMainParams_def
        CMainParams_vFoundersRewardAddress_def size_t_add_def size_t_of_int_def)
  moreover have "ZecToYec example_Externals CMainParams (vFoundersRewardAddress CMainParams ! 21) =
       ''yec:t3LTWeoxeWPbmdkUD3NWBquk4WkazhFBmvU''"
    by (simp add: example_Externals_def CMainParams_def CMainParams_vFoundersRewardAddress_def)
  moreover have "ZecToYec example_Externals CMainParams (vFoundersRewardAddress CMainParams ! 24) =
       ''yec:t3Rqonuzz7afkF7156ZA4vi4iimRSEn41hj''"
    by (simp add: example_Externals_def CMainParams_def CMainParams_vFoundersRewardAddress_def)
  moreover have "ZecToYec example_Externals CMainParams (vFoundersRewardAddress CMainParams ! 43) =
       ''yec:t3MEXDF9Wsi63KwpPuQdD6by32Mw2bNTbEa''"
    by (simp add: example_Externals_def CMainParams_def CMainParams_vFoundersRewardAddress_def)
  moreover have "ZecToYec example_Externals CMainParams (vFoundersRewardAddress CMainParams ! 47) =
       ''yec:t3Pcm737EsVkGTbhsu2NekKtJeG92mvYyoN''"
    by (simp add: example_Externals_def CMainParams_def CMainParams_vFoundersRewardAddress_def)
  ultimately show ?thesis
    by simp
qed

lemma legacy_rotation_unscaled:
  assumes len: "length (vFoundersRewardAddress this) = 48"
    and pre: "GetLastFoundersRewardBlockHeight ext (consensus this) 0 = 480"
    and y: "\<not> NetworkUpgradeActive (consensus this) 480 UPGRADE_YCASH"
    and b: "\<not> NetworkUpgradeActive (consensus this) 480 UPGRADE_BLOSSOM"
    and h: "0 < h" "h \<le> 480"
  shows "GetFoundersRewardAddressAtHeight ext this h =
           Inr (ZecToYec ext this (vFoundersRewardAddress this ! (nat h div 11)))"
proof -
  have y': "\<not> NetworkUpgradeActive (consensus this) h UPGRADE_YCASH"
    using y h(2) NetworkUpgradeActive_mono by blast
  have b': "\<not> NetworkUpgradeActive (consensus this) h UPGRADE_BLOSSOM"
    using b h(2) NetworkUpgradeActive_mono by blast
  have ne: "vFoundersRewardAddress this \<noteq> []" using len by auto
  have le: "h \<le> GetLastFoundersRewardBlockHeight ext (consensus this) 0"
    using h(2) pre by simp
  have fit: "GetLastFoundersRewardBlockHeight ext (consensus this) 0
               + int (length (vFoundersRewardAddress this)) < 2 ^ 64"
    by (simp add: len pre)
  note r = legacyFoundersRewardAddress_result [OF h(1) le ne fit]
  have "legacyAddressChangeInterval ext this = 11"
    using r(1) by (simp add: len pre)
  then have "legacyAddressIndex ext this h = nat h div 11"
    using r(2) by simp
  then have "legacyFoundersRewardAddress ext this h =
      Inr (ZecToYec ext this (vFoundersRewardAddress this ! (nat h div 11)))"
    using r(4) by simp
  then show ?thesis
    by (simp add: GetFoundersRewardAddressAtHeight_prefork [OF y']
        FounderAddressAdjustedHeight_inactive [OF b'])
qed

text \<open>
  C2, amended: on a network whose legacy founders list has 48 entries and whose last legacy
  reward height is 480, with neither the fork nor the rescaling upgrade active up to height
  480, \<^verbatim>\<open>GetFoundersRewardAddressAtHeight(1)\<close> returns \<open>legacyList[0]\<close>,
  \<^verbatim>\<open>GetFoundersRewardAddressAtHeight(240)\<close> returns \<open>legacyList[21]\<close> and
  \<^verbatim>\<open>GetFoundersRewardAddressAtHeight(480)\<close> returns \<open>legacyList[43]\<close>, each re-encoded to
  the current network's format.
\<close>

theorem scenario_48_480:
  assumes "length (vFoundersRewardAddress this) = 48"
    and "GetLastFoundersRewardBlockHeight ext (consensus this) 0 = 480"
    and "\<not> NetworkUpgradeActive (consensus this) 480 UPGRADE_YCASH"
    and "\<not> NetworkUpgradeActive (consensus this) 480 UPGRADE_BLOSSOM"
  shows "GetFoundersRewardAddressAtHeight ext this 1 =
           Inr (ZecToYec ext this (vFoundersRewardAddress this ! 0))
         \<and> GetFoundersRewardAddressAtHeight ext this 240 =
             Inr (ZecToYec ext this (vFoundersRewardAddress this ! 21))
         \<and> GetFoundersRewardAddressAtHeight ext this 480 =
             Inr (ZecToYec ext this (vFoundersRewardAddress this ! 43))"
  using legacy_rotation_unscaled [OF assms, of 1]
    legacy_rotation_unscaled [OF assms, of 240]
    legacy_rotation_unscaled [OF assms, of 480]
  by simp

theorem scenario_48_480_witness:
  "length (vFoundersRewardAddress CMainParams) = 48
   \<and> GetLastFoundersRewardBlockHeight example_Externals (consensus CMainParams) 0 = 480
   \<and> \<not> NetworkUpgradeActive (consensus CMainParams) 480 UPGRADE_YCASH
   \<and> \<not> NetworkUpgradeActive (consensus CMainParams) 480 UPGRADE_BLOSSOM
   \<and> GetFoundersRewardAddressAtHeight example_Externals CMainParams 1 =
       Inr ''yec:t3Vz22vK5z2LcKEdg16Yv4FFneEL1zg9ojd''
   \<and> GetFoundersRewardAddressAtHeight example_Externals CMainParams 240 =
       Inr ''yec:t3LTWeoxeWPbmdkUD3NWBquk4WkazhFBmvU''
   \<and> GetFoundersRewardAddressAtHeight example_Externals CMainParams 480 =
       Inr ''yec:t3MEXDF9Wsi63KwpPuQdD6by32Mw2bNTbEa''"
proof -
  have h1: "length (vFoundersRewardAddress CMainParams) = 48"
    by (simp add: CMainParams_def CMainParams_vFoundersRewardAddress_def)
  have h2: "GetLastFoundersRewardBlockHeight example_Externals (consensus CMainParams) 0 = 480"
    by (simp add: example_Externals_def)
  have h3: "\<not> NetworkUpgradeActive (consensus CMainParams) 480 UPGRADE_YCASH"
    by (simp add: NetworkUpgradeActive_def CMainParams_def)
  have h4: "\<not> NetworkUpgradeActive (consensus CMainParams) 480 UPGRADE_BLOSSOM"
    by (simp add: NetworkUpgradeActive_def CMainParams_def)
  have z: "ZecToYec example_Externals CMainParams = (\<lambda>address. ''yec:'' @ address)"
    by (simp add: example_Externals_def)
  have l0: "vFoundersRewardAddress CMainParams ! 0 = ''t3Vz22vK5z2LcKEdg16Yv4FFneEL1zg9ojd''"
    by (simp add: CMainParams_def CMainParams_vFoundersRewardAddress_def)
  have l21: "vFoundersRewardAddress CMainParams ! 21 = ''t3LTWeoxeWPbmdkUD3NWBquk4WkazhFBmvU''"
    by (simp add: CMainParams_def CMainParams_vFoundersRewardAddress_def)
  have l43: "vFoundersRewardAddress CMainParams ! 43 = ''t3MEXDF9Wsi63KwpPuQdD6by32Mw2bNTbEa''"
    by (simp add: CMainParams_def CMainParams_vFoundersRewardAddress_def)
  have "GetFoundersRewardAddressAtHeight example_Externals CMainParams 1 =
       Inr ''yec:t3Vz22vK5z2LcKEdg16Yv4FFneEL1zg9ojd''
   \<and> GetFoundersRewardAddressAtHeight example_Externals CMainParams 240 =
       Inr ''yec:t3LTWeoxeWPbmdkUD3NWBquk4WkazhFBmvU''
   \<and> GetFoundersRewardAddressAtHeight example_Externals CMainParams 480 =
       Inr ''yec:t3MEXDF9Wsi63KwpPuQdD6by32Mw2bNTbEa''"
    using scenario_48_480 [OF h1 h2 h3 h4]
    by (simp add: z l0 l21 l43)
  then show ?thesis using h1 h2 h3 h4 by simp
qed

subsection \<open>Rescaling after Blossom\<close>

lemma FounderAddressAdjustedHeight_floor:
  assumes "0 < BLOSSOM_POW_TARGET_SPACING_RATIO ext"
  shows "FounderAddressAdjustedHeight ext this nHeight =
           (if NetworkUpgradeActive (consensus this) nHeight UPGRADE_BLOSSOM
            then nActivationHeight (vUpgrades (consensus this) ! upgrade_index UPGRADE_BLOSSOM)
                 + (nHeight - nActivationHeight
                                (vUpgrades (consensus this) ! upgrade_index UPGRADE_BLOSSOM))
                   div BLOSSOM_POW_TARGET_SPACING_RATIO ext
            else nHeight)"
proof (cases "NetworkUpgradeActive (consensus this) nHeight UPGRADE_BLOSSOM")
  case True
  then have "0 \<le> nHeight - nActivationHeight
                               (vUpgrades (consensus this) ! upgrade_index UPGRADE_BLOSSOM)"
    using NetworkUpgradeActive_ge by fastforce
  then show ?thesis
    using True assms by (simp add: FounderAddressAdjustedHeight_def Let_def int_div_floor)
next
  case False
  then show ?thesis by (simp add: FounderAddressAdjustedHeight_def)
qed

lemma FounderAddressAdjustedHeight_mono:
  assumes r: "0 < BLOSSOM_POW_TARGET_SPACING_RATIO ext" and le: "h1 \<le> h2"
  shows "FounderAddressAdjustedHeight ext this h1 \<le> FounderAddressAdjustedHeight ext this h2"
proof -
  let ?a = "nActivationHeight (vUpgrades (consensus this) ! upgrade_index UPGRADE_BLOSSOM)"
  let ?r = "BLOSSOM_POW_TARGET_SPACING_RATIO ext"
  consider
      (none) "\<not> NetworkUpgradeActive (consensus this) h2 UPGRADE_BLOSSOM"
    | (late) "\<not> NetworkUpgradeActive (consensus this) h1 UPGRADE_BLOSSOM"
             "NetworkUpgradeActive (consensus this) h2 UPGRADE_BLOSSOM"
    | (both) "NetworkUpgradeActive (consensus this) h1 UPGRADE_BLOSSOM"
             "NetworkUpgradeActive (consensus this) h2 UPGRADE_BLOSSOM"
    by blast
  then show ?thesis
  proof cases
    case none
    then have "\<not> NetworkUpgradeActive (consensus this) h1 UPGRADE_BLOSSOM"
      using le NetworkUpgradeActive_mono by blast
    with none show ?thesis
      using le by (simp add: FounderAddressAdjustedHeight_inactive)
  next
    case late
    from late have "h1 < ?a"
      by (auto simp: NetworkUpgradeActive_def Let_def)
    moreover have "0 \<le> (h2 - ?a) div ?r"
      using r NetworkUpgradeActive_ge [OF late(2)] by (simp add: pos_imp_zdiv_nonneg_iff)
    ultimately show ?thesis
      using late by (simp add: FounderAddressAdjustedHeight_floor [OF r])
  next
    case both
    have "(h1 - ?a) div ?r \<le> (h2 - ?a) div ?r"
      using le r by (intro zdiv_mono1) simp_all
    then show ?thesis
      using both by (simp add: FounderAddressAdjustedHeight_floor [OF r])
  qed
qed

lemma is_int_below_size_t: "is_int x \<Longrightarrow> x < 2 ^ 64"
  by (simp add: is_int_def INT_MAX_def)

lemma int_quotient_between:
  fixes d r :: int
  assumes "0 \<le> d" and "0 < r"
  shows "0 \<le> d div r \<and> d div r \<le> d"
proof
  show "0 \<le> d div r"
    using assms by (simp add: pos_imp_zdiv_nonneg_iff)
  have "d div r \<le> d div 1"
    using assms by (intro zdiv_mono2) simp_all
  then show "d div r \<le> d" by simp
qed

lemma legacyFoundersRewardAddress_outside:
  "\<not> (0 < h' \<and> h' \<le> GetLastFoundersRewardBlockHeight ext (consensus this) 0) \<Longrightarrow>
     legacyFoundersRewardAddress ext this h' = Inl AssertionFailure"
  by (simp add: legacyFoundersRewardAddress_def)

text \<open>
  C3: in the pre-fork regime, when Blossom is active at the height,
  \<^verbatim>\<open>GetFoundersRewardAddressAtHeight\<close> replaces the height by
  \<open>blossomActivationHeight + floor((height - blossomActivationHeight) / spacingRatio)\<close>, which
  is again an \<^verbatim>\<open>int\<close>, and applies the legacy rotation to this height; when Blossom is not
  active it applies the legacy rotation to the height itself. Applying the legacy rotation
  to a height \<open>height'\<close> is: the address returned is the legacy-list entry at
  \<open>floor(height' / ((maxHeight + legacyListSize) / legacyListSize))\<close>, re-encoded, when
  \<open>0 < height' \<le> maxHeight\<close>, and the assertion fails otherwise. The height and the
  Blossom activation height are \<^verbatim>\<open>int\<close>s whose difference, where the code takes it, does not
  overflow; the spacing ratio is positive and the legacy list is not empty.
\<close>

theorem blossom_rescaling:
  assumes "\<not> NetworkUpgradeActive (consensus this) nHeight UPGRADE_YCASH"
    and "0 < BLOSSOM_POW_TARGET_SPACING_RATIO ext"
    and "is_int nHeight"
    and "is_int (nActivationHeight (vUpgrades (consensus this) ! upgrade_index UPGRADE_BLOSSOM))"
    and "NetworkUpgradeActive (consensus this) nHeight UPGRADE_BLOSSOM \<longrightarrow>
           is_int (nHeight
                     - nActivationHeight (vUpgrades (consensus this) ! upgrade_index UPGRADE_BLOSSOM))"
    and "vFoundersRewardAddress this \<noteq> []"
    and "GetLastFoundersRewardBlockHeight ext (consensus this) 0
           + int (length (vFoundersRewardAddress this)) < 2 ^ 64"
  shows "let blossomActivationHeight =
               nActivationHeight (vUpgrades (consensus this) ! upgrade_index UPGRADE_BLOSSOM);
             spacingRatio = BLOSSOM_POW_TARGET_SPACING_RATIO ext;
             height' =
               (if NetworkUpgradeActive (consensus this) nHeight UPGRADE_BLOSSOM
                then blossomActivationHeight
                     + \<lfloor>real_of_int (nHeight - blossomActivationHeight)
                        / real_of_int spacingRatio\<rfloor>
                else nHeight);
             maxHeight = GetLastFoundersRewardBlockHeight ext (consensus this) 0;
             legacyListSize = length (vFoundersRewardAddress this);
             interval = (maxHeight + int legacyListSize) div int legacyListSize
         in FounderAddressAdjustedHeight ext this nHeight = height'
            \<and> is_int height'
            \<and> GetFoundersRewardAddressAtHeight ext this nHeight =
                (if 0 < height' \<and> height' \<le> maxHeight
                 then Inr (ZecToYec ext this
                             (vFoundersRewardAddress this
                                ! nat \<lfloor>real_of_int height' / real_of_int interval\<rfloor>))
                 else Inl AssertionFailure)"
proof -
  let ?a = "nActivationHeight (vUpgrades (consensus this) ! upgrade_index UPGRADE_BLOSSOM)"
  let ?r = "BLOSSOM_POW_TARGET_SPACING_RATIO ext"
  let ?pre = "GetLastFoundersRewardBlockHeight ext (consensus this) 0"
  let ?n = "length (vFoundersRewardAddress this)"
  let ?iv = "(?pre + int ?n) div int ?n"
  define h where "h = (if NetworkUpgradeActive (consensus this) nHeight UPGRADE_BLOSSOM
            then ?a + \<lfloor>real_of_int (nHeight - ?a) / real_of_int ?r\<rfloor> else nHeight)"
  have adj: "FounderAddressAdjustedHeight ext this nHeight = h"
    unfolding h_def
    using FounderAddressAdjustedHeight_floor [OF assms(2), of this nHeight]
    by (simp only: floor_divide_of_int_eq)
  have rng: "is_int h"
  proof (cases "NetworkUpgradeActive (consensus this) nHeight UPGRADE_BLOSSOM")
    case True
    then have "0 \<le> nHeight - ?a"
      using NetworkUpgradeActive_ge by fastforce
    then have "0 \<le> (nHeight - ?a) div ?r \<and> (nHeight - ?a) div ?r \<le> nHeight - ?a"
      using assms(2) by (rule int_quotient_between)
    then have "?a \<le> ?a + (nHeight - ?a) div ?r \<and> ?a + (nHeight - ?a) div ?r \<le> nHeight"
      by simp
    then have "is_int (?a + (nHeight - ?a) div ?r)"
      using assms(3,4) by (simp add: is_int_def)
    moreover have "h = ?a + (nHeight - ?a) div ?r"
      unfolding h_def using True by (simp only: floor_divide_of_int_eq if_True)
    ultimately show ?thesis by simp
  next
    case False
    then have "h = nHeight" by (simp add: h_def)
    then show ?thesis using assms(3) by simp
  qed
  have res: "GetFoundersRewardAddressAtHeight ext this nHeight =
      (if 0 < h \<and> h \<le> ?pre
       then Inr (ZecToYec ext this
                   (vFoundersRewardAddress this ! nat \<lfloor>real_of_int h / real_of_int ?iv\<rfloor>))
       else Inl AssertionFailure)"
  proof (cases "0 < h \<and> h \<le> ?pre")
    case True
    then have pos: "0 < h" and le: "h \<le> ?pre" by simp_all
    have "int (legacyAddressIndex ext this h) = h div ?iv"
      by (rule legacyAddressIndex_int [OF pos le assms(6,7)])
    then have "int (legacyAddressIndex ext this h) = \<lfloor>real_of_int h / real_of_int ?iv\<rfloor>"
      by (simp only: floor_divide_of_int_eq)
    then have ix: "legacyAddressIndex ext this h = nat \<lfloor>real_of_int h / real_of_int ?iv\<rfloor>"
      by simp
    have "legacyFoundersRewardAddress ext this h =
        Inr (ZecToYec ext this (vFoundersRewardAddress this ! legacyAddressIndex ext this h))"
      by (rule legacyFoundersRewardAddress_result(4) [OF pos le assms(6,7)])
    then have "GetFoundersRewardAddressAtHeight ext this nHeight =
        Inr (ZecToYec ext this
               (vFoundersRewardAddress this ! nat \<lfloor>real_of_int h / real_of_int ?iv\<rfloor>))"
      by (simp only: GetFoundersRewardAddressAtHeight_prefork [OF assms(1)] adj ix)
    with True show ?thesis by simp
  next
    case False
    then have "legacyFoundersRewardAddress ext this h = Inl AssertionFailure"
      by (rule legacyFoundersRewardAddress_outside)
    then have "GetFoundersRewardAddressAtHeight ext this nHeight = Inl AssertionFailure"
      by (simp only: GetFoundersRewardAddressAtHeight_prefork [OF assms(1)] adj)
    with False show ?thesis by simp
  qed
  from adj rng res show ?thesis
    unfolding h_def by (simp only: Let_def)
qed

theorem blossom_rescaling_witness:
  "\<not> NetworkUpgradeActive (consensus example_blossom_network) 301 UPGRADE_YCASH
   \<and> NetworkUpgradeActive (consensus example_blossom_network) 301 UPGRADE_BLOSSOM
   \<and> nActivationHeight
        (vUpgrades (consensus example_blossom_network) ! upgrade_index UPGRADE_BLOSSOM) = 100
   \<and> BLOSSOM_POW_TARGET_SPACING_RATIO example_Externals = 2
   \<and> is_int 301 \<and> is_int 100 \<and> is_int (301 - 100)
   \<and> GetLastFoundersRewardBlockHeight example_Externals (consensus example_blossom_network) 0 = 480
   \<and> length (vFoundersRewardAddress example_blossom_network) = 48
   \<and> FounderAddressAdjustedHeight example_Externals example_blossom_network 301 = 200
   \<and> GetFoundersRewardAddressAtHeight example_Externals example_blossom_network 301 =
       Inr ''yec:t2VEn3KiKyHSGyzd3nDw6ESWtaCQHwuv9WC''
   \<and> vFoundersRewardAddress example_blossom_network ! 18 = ''t2VEn3KiKyHSGyzd3nDw6ESWtaCQHwuv9WC''
   \<and> \<not> NetworkUpgradeActive (consensus example_blossom_network) 50 UPGRADE_YCASH
   \<and> \<not> NetworkUpgradeActive (consensus example_blossom_network) 50 UPGRADE_BLOSSOM
   \<and> GetFoundersRewardAddressAtHeight example_Externals example_blossom_network 50 =
       Inr ''yec:t2BkYdVCHzvTJJUTx4yZB8qeegD8QsPx8bo''
   \<and> vFoundersRewardAddress example_blossom_network ! 4 = ''t2BkYdVCHzvTJJUTx4yZB8qeegD8QsPx8bo''
   \<and> NetworkUpgradeActive (consensus example_blossom_network) 1100 UPGRADE_BLOSSOM
   \<and> GetFoundersRewardAddressAtHeight example_Externals example_blossom_network 1100 =
       Inl AssertionFailure"
proof -
  have y: "\<not> NetworkUpgradeActive (consensus example_blossom_network) 301 UPGRADE_YCASH"
    "\<not> NetworkUpgradeActive (consensus example_blossom_network) 50 UPGRADE_YCASH"
    "\<not> NetworkUpgradeActive (consensus example_blossom_network) 1100 UPGRADE_YCASH"
    by (simp_all add: NetworkUpgradeActive_def NO_ACTIVATION_HEIGHT_def example_blossom_network_simps
        del: upgrade_index.simps)
  have b: "NetworkUpgradeActive (consensus example_blossom_network) 301 UPGRADE_BLOSSOM"
    "\<not> NetworkUpgradeActive (consensus example_blossom_network) 50 UPGRADE_BLOSSOM"
    "NetworkUpgradeActive (consensus example_blossom_network) 1100 UPGRADE_BLOSSOM"
    by (simp_all add: NetworkUpgradeActive_def NO_ACTIVATION_HEIGHT_def example_blossom_network_simps
        del: upgrade_index.simps)
  have a: "nActivationHeight
        (vUpgrades (consensus example_blossom_network) ! upgrade_index UPGRADE_BLOSSOM) = 100"
    by (simp add: example_blossom_network_simps del: upgrade_index.simps)
  have r: "BLOSSOM_POW_TARGET_SPACING_RATIO example_Externals = 2"
    by (simp add: example_Externals_simps)
  have r0: "0 < BLOSSOM_POW_TARGET_SPACING_RATIO example_Externals"
    by (simp add: r)
  have i: "is_int 301" "is_int 100" "is_int (301 - 100)" "is_int 50" "is_int 1100"
    "is_int (1100 - 100)"
    by (simp_all add: is_int_def INT_MIN_def INT_MAX_def)
  have ia: "is_int (nActivationHeight
        (vUpgrades (consensus example_blossom_network) ! upgrade_index UPGRADE_BLOSSOM))"
    using i(2) by (simp only: a)
  have pre: "GetLastFoundersRewardBlockHeight example_Externals (consensus example_blossom_network) 0
      = 480"
    by (simp add: example_Externals_simps)
  have len: "length (vFoundersRewardAddress example_blossom_network) = 48"
    by (simp add: example_blossom_network_simps CTestNetParams_vFoundersRewardAddress_def)
  have ne: "vFoundersRewardAddress example_blossom_network \<noteq> []"
    using len by auto
  have fit: "GetLastFoundersRewardBlockHeight example_Externals (consensus example_blossom_network) 0
      + int (length (vFoundersRewardAddress example_blossom_network)) < 2 ^ 64"
    by (simp add: pre len)
  have l: "vFoundersRewardAddress example_blossom_network ! 18 = ''t2VEn3KiKyHSGyzd3nDw6ESWtaCQHwuv9WC''"
    "vFoundersRewardAddress example_blossom_network ! 4 = ''t2BkYdVCHzvTJJUTx4yZB8qeegD8QsPx8bo''"
    by (simp_all add: example_blossom_network_simps CTestNetParams_vFoundersRewardAddress_def)
  have z: "ZecToYec example_Externals example_blossom_network = (\<lambda>address. ''yec:'' @ address)"
    by (simp add: example_Externals_def)
  have d301: "NetworkUpgradeActive (consensus example_blossom_network) 301 UPGRADE_BLOSSOM \<longrightarrow>
      is_int (301 - nActivationHeight
        (vUpgrades (consensus example_blossom_network) ! upgrade_index UPGRADE_BLOSSOM))"
    using i(3) by (simp only: a) simp
  have d50: "NetworkUpgradeActive (consensus example_blossom_network) 50 UPGRADE_BLOSSOM \<longrightarrow>
      is_int (50 - nActivationHeight
        (vUpgrades (consensus example_blossom_network) ! upgrade_index UPGRADE_BLOSSOM))"
    using b(2) by simp
  have d1100: "NetworkUpgradeActive (consensus example_blossom_network) 1100 UPGRADE_BLOSSOM \<longrightarrow>
      is_int (1100 - nActivationHeight
        (vUpgrades (consensus example_blossom_network) ! upgrade_index UPGRADE_BLOSSOM))"
    using i(6) by (simp only: a) simp
  have t301: "FounderAddressAdjustedHeight example_Externals example_blossom_network 301 = 200
      \<and> GetFoundersRewardAddressAtHeight example_Externals example_blossom_network 301 =
          Inr ''yec:t2VEn3KiKyHSGyzd3nDw6ESWtaCQHwuv9WC''"
    using blossom_rescaling [OF y(1) r0 i(1) ia d301 ne fit] b(1)
    by (simp add: Let_def a r pre len l z del: upgrade_index.simps)
  have t50: "GetFoundersRewardAddressAtHeight example_Externals example_blossom_network 50 =
          Inr ''yec:t2BkYdVCHzvTJJUTx4yZB8qeegD8QsPx8bo''"
    using blossom_rescaling [OF y(2) r0 i(4) ia d50 ne fit] b(2)
    by (simp add: Let_def a r pre len l z del: upgrade_index.simps)
  have t1100: "GetFoundersRewardAddressAtHeight example_Externals example_blossom_network 1100 =
          Inl AssertionFailure"
    using blossom_rescaling [OF y(3) r0 i(5) ia d1100 ne fit] b(3)
    by (simp add: Let_def a r pre len del: upgrade_index.simps)
  from y b a r i pre len l t301 t50 t1100 show ?thesis
    by (simp del: upgrade_index.simps)
qed

subsection \<open>Monotone rotation before the fork\<close>

text \<open>
  C5: for heights \<open>h1 \<le> h2\<close> that both lie in the pre-fork regime and whose rescaled heights
  are in \<open>(0, maxHeight]\<close>, the legacy-list index computed at \<open>h1\<close> is at most the index
  computed at \<open>h2\<close>, and both returned addresses are entries of the legacy founders list
  (re-encoded). The list is not empty and the spacing ratio is positive; the sum of the
  \<^verbatim>\<open>int\<close> and the vector's size is below \<open>2 ^ 64\<close>.
\<close>

theorem legacy_rotation_monotone:
  assumes "h1 \<le> h2"
    and "\<not> NetworkUpgradeActive (consensus this) h1 UPGRADE_YCASH"
    and "\<not> NetworkUpgradeActive (consensus this) h2 UPGRADE_YCASH"
    and "0 < FounderAddressAdjustedHeight ext this h1"
    and "FounderAddressAdjustedHeight ext this h1
           \<le> GetLastFoundersRewardBlockHeight ext (consensus this) 0"
    and "0 < FounderAddressAdjustedHeight ext this h2"
    and "FounderAddressAdjustedHeight ext this h2
           \<le> GetLastFoundersRewardBlockHeight ext (consensus this) 0"
    and "0 < BLOSSOM_POW_TARGET_SPACING_RATIO ext"
    and "vFoundersRewardAddress this \<noteq> []"
    and "GetLastFoundersRewardBlockHeight ext (consensus this) 0
           + int (length (vFoundersRewardAddress this)) < 2 ^ 64"
  shows "legacyAddressIndex ext this (FounderAddressAdjustedHeight ext this h1)
           \<le> legacyAddressIndex ext this (FounderAddressAdjustedHeight ext this h2)
         \<and> legacyAddressIndex ext this (FounderAddressAdjustedHeight ext this h2)
             < length (vFoundersRewardAddress this)
         \<and> GetFoundersRewardAddressAtHeight ext this h1 =
             Inr (ZecToYec ext this
                    (vFoundersRewardAddress this
                       ! legacyAddressIndex ext this (FounderAddressAdjustedHeight ext this h1)))
         \<and> GetFoundersRewardAddressAtHeight ext this h2 =
             Inr (ZecToYec ext this
                    (vFoundersRewardAddress this
                       ! legacyAddressIndex ext this (FounderAddressAdjustedHeight ext this h2)))"
proof -
  let ?a1 = "FounderAddressAdjustedHeight ext this h1"
  let ?a2 = "FounderAddressAdjustedHeight ext this h2"
  note r1 = legacyFoundersRewardAddress_result [OF assms(4,5,9,10)]
  note r2 = legacyFoundersRewardAddress_result [OF assms(6,7,9,10)]
  have "?a1 \<le> ?a2"
    using assms(8,1) by (rule FounderAddressAdjustedHeight_mono)
  then have "nat ?a1 \<le> nat ?a2" by simp
  then have "nat ?a1 div legacyAddressChangeInterval ext this
               \<le> nat ?a2 div legacyAddressChangeInterval ext this"
    by (rule div_le_mono)
  then have a: "legacyAddressIndex ext this ?a1 \<le> legacyAddressIndex ext this ?a2"
    by (simp only: r1(2) r2(2))
  have c: "GetFoundersRewardAddressAtHeight ext this h1 =
      Inr (ZecToYec ext this (vFoundersRewardAddress this ! legacyAddressIndex ext this ?a1))"
    using r1(4) by (simp add: GetFoundersRewardAddressAtHeight_prefork [OF assms(2)])
  have d: "GetFoundersRewardAddressAtHeight ext this h2 =
      Inr (ZecToYec ext this (vFoundersRewardAddress this ! legacyAddressIndex ext this ?a2))"
    using r2(4) by (simp add: GetFoundersRewardAddressAtHeight_prefork [OF assms(3)])
  from a r2(3) c d show ?thesis by blast
qed

theorem legacy_rotation_monotone_witness:
  "(50::int) \<le> 301
   \<and> \<not> NetworkUpgradeActive (consensus example_blossom_network) 50 UPGRADE_YCASH
   \<and> \<not> NetworkUpgradeActive (consensus example_blossom_network) 301 UPGRADE_YCASH
   \<and> FounderAddressAdjustedHeight example_Externals example_blossom_network 50 = 50
   \<and> FounderAddressAdjustedHeight example_Externals example_blossom_network 301 = 200
   \<and> GetLastFoundersRewardBlockHeight example_Externals (consensus example_blossom_network) 0 = 480
   \<and> 0 < BLOSSOM_POW_TARGET_SPACING_RATIO example_Externals
   \<and> length (vFoundersRewardAddress example_blossom_network) = 48
   \<and> legacyAddressIndex example_Externals example_blossom_network 50
       \<le> legacyAddressIndex example_Externals example_blossom_network 200
   \<and> GetFoundersRewardAddressAtHeight example_Externals example_blossom_network 50 =
       Inr (ZecToYec example_Externals example_blossom_network
              (vFoundersRewardAddress example_blossom_network
                 ! legacyAddressIndex example_Externals example_blossom_network 50))
   \<and> GetFoundersRewardAddressAtHeight example_Externals example_blossom_network 301 =
       Inr (ZecToYec example_Externals example_blossom_network
              (vFoundersRewardAddress example_blossom_network
                 ! legacyAddressIndex example_Externals example_blossom_network 200))"
proof -
  have le: "(50::int) \<le> 301" by simp
  have y: "\<not> NetworkUpgradeActive (consensus example_blossom_network) 50 UPGRADE_YCASH"
    "\<not> NetworkUpgradeActive (consensus example_blossom_network) 301 UPGRADE_YCASH"
    by (simp_all add: NetworkUpgradeActive_def NO_ACTIVATION_HEIGHT_def example_blossom_network_simps
        del: upgrade_index.simps)
  note adj = example_blossom_network_adjusted
  have pre: "GetLastFoundersRewardBlockHeight example_Externals (consensus example_blossom_network) 0 = 480"
    by (simp add: example_Externals_simps)
  have r: "0 < BLOSSOM_POW_TARGET_SPACING_RATIO example_Externals"
    by (simp add: example_Externals_simps)
  have len: "length (vFoundersRewardAddress example_blossom_network) = 48"
    by (simp add: example_blossom_network_simps CTestNetParams_vFoundersRewardAddress_def)
  have ne: "vFoundersRewardAddress example_blossom_network \<noteq> []"
    using len by auto
  have "legacyAddressIndex example_Externals example_blossom_network 50
       \<le> legacyAddressIndex example_Externals example_blossom_network 200
   \<and> GetFoundersRewardAddressAtHeight example_Externals example_blossom_network 50 =
       Inr (ZecToYec example_Externals example_blossom_network
              (vFoundersRewardAddress example_blossom_network
                 ! legacyAddressIndex example_Externals example_blossom_network 50))
   \<and> GetFoundersRewardAddressAtHeight example_Externals example_blossom_network 301 =
       Inr (ZecToYec example_Externals example_blossom_network
              (vFoundersRewardAddress example_blossom_network
                 ! legacyAddressIndex example_Externals example_blossom_network 200))"
    using legacy_rotation_monotone [of 50 301 example_blossom_network example_Externals, OF le y]
      r ne
    by (simp add: adj pre len)
  then show ?thesis using le y adj pre r len by simp
qed

subsection \<open>The post-fork rotation\<close>

lemma ycashAddressIndex_floor:
  assumes act: "NetworkUpgradeActive (consensus this) nHeight UPGRADE_YCASH"
    and fit: "nHeight - nActivationHeight (vUpgrades (consensus this) ! upgrade_index UPGRADE_YCASH)
                < 2 ^ 64"
  shows "ycashAddressIndex this nHeight =
           nat ((nHeight - nActivationHeight
                             (vUpgrades (consensus this) ! upgrade_index UPGRADE_YCASH))
                div 17917)"
proof -
  let ?d = "nHeight - nActivationHeight (vUpgrades (consensus this) ! upgrade_index UPGRADE_YCASH)"
  have d0: "0 \<le> ?d"
    using NetworkUpgradeActive_ge [OF act] by simp
  then have "size_t_of_int ?d = nat ?d"
    using fit by (intro size_t_of_int_nat)
  then have "ycashAddressIndex this nHeight = nat ?d div 17917"
    by (simp add: ycashAddressIndex_def)
  also have "\<dots> = nat (?d div 17917)"
    using d0 by (simp add: nat_div_distrib)
  finally show ?thesis .
qed

lemma GetFoundersRewardAddressAtHeight_postfork:
  assumes "NetworkUpgradeActive (consensus this) nHeight UPGRADE_YCASH"
    and "vYcashFoundersRewardAddress this \<noteq> []"
  shows "GetFoundersRewardAddressAtHeight ext this nHeight =
           Inr (vYcashFoundersRewardAddress this
                  ! (ycashAddressIndex this nHeight mod length (vYcashFoundersRewardAddress this)))"
  using assms by (simp add: GetFoundersRewardAddressAtHeight_def)

text \<open>
  C4: in the post-fork regime \<^verbatim>\<open>GetFoundersRewardAddressAtHeight\<close> returns the successor-list
  entry at \<open>floor((height - forkActivationHeight) / 17917) mod successorListSize\<close>, so the
  rotation wraps: for every \<open>k \<ge> 0\<close> the address at
  \<open>forkActivationHeight + k * 17917 * successorListSize\<close> is \<open>successorList[0]\<close>. The
  successor list is not empty; the height and the fork's activation height are \<^verbatim>\<open>int\<close>s
  whose difference does not overflow.
\<close>

theorem ycash_rotation_wraps:
  assumes "vYcashFoundersRewardAddress this \<noteq> []"
    and "is_int (nActivationHeight (vUpgrades (consensus this) ! upgrade_index UPGRADE_YCASH))"
  shows "(NetworkUpgradeActive (consensus this) nHeight UPGRADE_YCASH
            \<and> is_int nHeight
            \<and> is_int (nHeight - nActivationHeight
                                  (vUpgrades (consensus this) ! upgrade_index UPGRADE_YCASH))
          \<longrightarrow> GetFoundersRewardAddressAtHeight ext this nHeight =
                Inr (vYcashFoundersRewardAddress this
                       ! (nat \<lfloor>real_of_int
                                (nHeight - nActivationHeight
                                   (vUpgrades (consensus this) ! upgrade_index UPGRADE_YCASH))
                              / 17917\<rfloor>
                          mod length (vYcashFoundersRewardAddress this))))
         \<and> (0 \<le> k
            \<and> NetworkUpgradeActive (consensus this)
                 (nActivationHeight (vUpgrades (consensus this) ! upgrade_index UPGRADE_YCASH)
                    + k * 17917 * int (length (vYcashFoundersRewardAddress this)))
                 UPGRADE_YCASH
            \<and> is_int (nActivationHeight (vUpgrades (consensus this) ! upgrade_index UPGRADE_YCASH)
                        + k * 17917 * int (length (vYcashFoundersRewardAddress this)))
            \<and> is_int (k * 17917 * int (length (vYcashFoundersRewardAddress this)))
          \<longrightarrow> GetFoundersRewardAddressAtHeight ext this
                  (nActivationHeight (vUpgrades (consensus this) ! upgrade_index UPGRADE_YCASH)
                     + k * 17917 * int (length (vYcashFoundersRewardAddress this)))
                = Inr (vYcashFoundersRewardAddress this ! 0))"
proof (intro conjI impI)
  let ?a = "nActivationHeight (vUpgrades (consensus this) ! upgrade_index UPGRADE_YCASH)"
  let ?n = "length (vYcashFoundersRewardAddress this)"
  {
    assume h: "NetworkUpgradeActive (consensus this) nHeight UPGRADE_YCASH
               \<and> is_int nHeight \<and> is_int (nHeight - ?a)"
    then have "is_int (nHeight - ?a)" by simp
    then have fit: "nHeight - ?a < 2 ^ 64"
      by (rule is_int_below_size_t)
    have fl: "\<lfloor>real_of_int (nHeight - ?a) / 17917\<rfloor> = (nHeight - ?a) div 17917"
      using floor_divide_of_int_eq [of "nHeight - ?a" 17917, where ?'a = real] by simp
    have "ycashAddressIndex this nHeight = nat ((nHeight - ?a) div 17917)"
      using h fit by (intro ycashAddressIndex_floor) simp_all
    then have idx: "ycashAddressIndex this nHeight = nat \<lfloor>real_of_int (nHeight - ?a) / 17917\<rfloor>"
      by (simp only: fl)
    have "GetFoundersRewardAddressAtHeight ext this nHeight =
        Inr (vYcashFoundersRewardAddress this ! (ycashAddressIndex this nHeight mod ?n))"
      by (rule GetFoundersRewardAddressAtHeight_postfork [OF conjunct1 [OF h] assms(1)])
    then show "GetFoundersRewardAddressAtHeight ext this nHeight =
        Inr (vYcashFoundersRewardAddress this
               ! (nat \<lfloor>real_of_int (nHeight - ?a) / 17917\<rfloor> mod ?n))"
      by (simp only: idx)
  }
  {
    assume k: "0 \<le> k \<and> NetworkUpgradeActive (consensus this) (?a + k * 17917 * int ?n) UPGRADE_YCASH
               \<and> is_int (?a + k * 17917 * int ?n) \<and> is_int (k * 17917 * int ?n)"
    then have "is_int (k * 17917 * int ?n)" by simp
    then have fit: "k * 17917 * int ?n < 2 ^ 64"
      by (rule is_int_below_size_t)
    have "ycashAddressIndex this (?a + k * 17917 * int ?n) =
            nat ((?a + k * 17917 * int ?n - ?a) div 17917)"
      using k fit by (intro ycashAddressIndex_floor) simp_all
    also have "\<dots> = nat (k * int ?n)" by simp
    also have "\<dots> = nat k * ?n" using k by (simp add: nat_mult_distrib)
    finally have "ycashAddressIndex this (?a + k * 17917 * int ?n) mod ?n = 0" by simp
    then show "GetFoundersRewardAddressAtHeight ext this (?a + k * 17917 * int ?n) =
        Inr (vYcashFoundersRewardAddress this ! 0)"
      using k assms(1) by (simp add: GetFoundersRewardAddressAtHeight_postfork)
  }
qed

theorem ycash_rotation_wraps_witness:
  "length (vYcashFoundersRewardAddress example_regtest_ycash) = 48
   \<and> nActivationHeight (vUpgrades (consensus example_regtest_ycash) ! upgrade_index UPGRADE_YCASH)
       = 1000
   \<and> is_int 1000 \<and> is_int (1000 + 17917) \<and> is_int 17917
   \<and> is_int (1000 + 48 * 17917) \<and> is_int (48 * 17917)
   \<and> NetworkUpgradeActive (consensus example_regtest_ycash) 1000 UPGRADE_YCASH
   \<and> NetworkUpgradeActive (consensus example_regtest_ycash) (1000 + 17917) UPGRADE_YCASH
   \<and> NetworkUpgradeActive (consensus example_regtest_ycash) (1000 + 48 * 17917) UPGRADE_YCASH
   \<and> GetFoundersRewardAddressAtHeight example_Externals example_regtest_ycash 1000 =
       Inr ''smDw2LWkeuJ1NGBDDZvdNbzY8A9D1mkkDZm''
   \<and> GetFoundersRewardAddressAtHeight example_Externals example_regtest_ycash (1000 + 17917) =
       Inr ''smDxM6WPpz3HcK6m9cCnhQkBXMLnUf3cryA''
   \<and> GetFoundersRewardAddressAtHeight example_Externals example_regtest_ycash (1000 + 48 * 17917) =
       Inr ''smDw2LWkeuJ1NGBDDZvdNbzY8A9D1mkkDZm''
   \<and> vYcashFoundersRewardAddress example_regtest_ycash ! 0 = ''smDw2LWkeuJ1NGBDDZvdNbzY8A9D1mkkDZm''
   \<and> vYcashFoundersRewardAddress example_regtest_ycash ! 1 = ''smDxM6WPpz3HcK6m9cCnhQkBXMLnUf3cryA''"
proof -
  have len: "length (vYcashFoundersRewardAddress example_regtest_ycash) = 48"
    by (simp add: example_regtest_ycash_simps CRegTestParams_vYcashFoundersRewardAddress_def)
  have ne: "vYcashFoundersRewardAddress example_regtest_ycash \<noteq> []"
    using len by auto
  have a: "nActivationHeight (vUpgrades (consensus example_regtest_ycash) ! upgrade_index UPGRADE_YCASH)
             = 1000"
    by (simp add: example_regtest_ycash_simps del: upgrade_index.simps)
  have i: "is_int 1000" "is_int (1000 + 17917)" "is_int 17917" "is_int (1000 + 48 * 17917)"
    "is_int (48 * 17917)" "is_int 0"
    by (simp_all add: is_int_def INT_MIN_def INT_MAX_def)
  have ia: "is_int (nActivationHeight
      (vUpgrades (consensus example_regtest_ycash) ! upgrade_index UPGRADE_YCASH))"
    using i(1) by (simp only: a)
  have act: "NetworkUpgradeActive (consensus example_regtest_ycash) 1000 UPGRADE_YCASH"
    "NetworkUpgradeActive (consensus example_regtest_ycash) (1000 + 17917) UPGRADE_YCASH"
    "NetworkUpgradeActive (consensus example_regtest_ycash) (1000 + 48 * 17917) UPGRADE_YCASH"
    by (simp_all add: NetworkUpgradeActive_def NO_ACTIVATION_HEIGHT_def a del: upgrade_index.simps)
  have l: "vYcashFoundersRewardAddress example_regtest_ycash ! 0 = ''smDw2LWkeuJ1NGBDDZvdNbzY8A9D1mkkDZm''"
    "vYcashFoundersRewardAddress example_regtest_ycash ! 1 = ''smDxM6WPpz3HcK6m9cCnhQkBXMLnUf3cryA''"
    by (simp_all add: example_regtest_ycash_simps CRegTestParams_vYcashFoundersRewardAddress_def)
  have l1: "vYcashFoundersRewardAddress example_regtest_ycash ! Suc 0 =
      ''smDxM6WPpz3HcK6m9cCnhQkBXMLnUf3cryA''"
    using l(2) by simp
  have r0: "GetFoundersRewardAddressAtHeight example_Externals example_regtest_ycash 1000 =
       Inr ''smDw2LWkeuJ1NGBDDZvdNbzY8A9D1mkkDZm''"
    using ycash_rotation_wraps
        [OF ne ia, where nHeight = 1000 and k = 0 and ext = example_Externals] act(1) i
    by (simp add: a len l del: upgrade_index.simps)
  have r1: "GetFoundersRewardAddressAtHeight example_Externals example_regtest_ycash (1000 + 17917) =
       Inr ''smDxM6WPpz3HcK6m9cCnhQkBXMLnUf3cryA''"
    using ycash_rotation_wraps
        [OF ne ia, where nHeight = "1000 + 17917" and k = 0 and ext = example_Externals] act(2) i
    by (simp add: a len l l1 del: upgrade_index.simps)
  have r48: "GetFoundersRewardAddressAtHeight example_Externals example_regtest_ycash (1000 + 48 * 17917) =
       Inr ''smDw2LWkeuJ1NGBDDZvdNbzY8A9D1mkkDZm''"
    using ycash_rotation_wraps
        [OF ne ia, where nHeight = 1000 and k = 1 and ext = example_Externals] act(3) i
    by (simp add: a len l del: upgrade_index.simps)
  from len a i act r0 r1 r48 l show ?thesis by (simp del: upgrade_index.simps)
qed

subsection \<open>Equihash parameters by height\<close>

text \<open>
  C6: on the regtest network \<^verbatim>\<open>EquihashN(h)\<close> and \<^verbatim>\<open>EquihashK(h)\<close> are the network-wide
  \<^verbatim>\<open>nEquihashN\<close> and \<^verbatim>\<open>nEquihashK\<close> for every height \<open>h\<close>, whatever the per-epoch table
  holds, so they are the same at all heights.
\<close>

theorem regtest_equihash_constant:
  assumes "strNetworkID this = ''regtest''"
  shows "EquihashN ext EquihashUpgradeInfo this h = nEquihashN (consensus this)
         \<and> EquihashK ext EquihashUpgradeInfo this h = nEquihashK (consensus this)
         \<and> EquihashN ext EquihashUpgradeInfo this h = EquihashN ext EquihashUpgradeInfo' this h'
         \<and> EquihashK ext EquihashUpgradeInfo this h = EquihashK ext EquihashUpgradeInfo' this h'"
  using assms by (simp add: EquihashN_def EquihashK_def)

theorem regtest_equihash_constant_witness:
  "strNetworkID example_regtest_ycash = ''regtest''
   \<and> EquihashN example_Externals example_EquihashUpgradeInfo example_regtest_ycash 5 = 48
   \<and> EquihashK example_Externals example_EquihashUpgradeInfo example_regtest_ycash 5 = 5
   \<and> EquihashN example_Externals example_EquihashUpgradeInfo example_regtest_ycash 2000 = 48
   \<and> EquihashK example_Externals example_EquihashUpgradeInfo example_regtest_ycash 2000 = 5"
proof -
  have id: "strNetworkID example_regtest_ycash = ''regtest''"
    by (simp add: example_regtest_ycash_def UpdateNetworkUpgradeParameters_def
        CRegTestParams_UpdateNetworkUpgradeParameters_def static_init_def CRegTestParams_def)
  have nk: "nEquihashN (consensus example_regtest_ycash) = 48"
    "nEquihashK (consensus example_regtest_ycash) = 5"
    by (simp_all add: example_regtest_ycash_def UpdateNetworkUpgradeParameters_def
        CRegTestParams_UpdateNetworkUpgradeParameters_def static_init_def CRegTestParams_def)
  show ?thesis
    using regtest_equihash_constant [OF id, of example_Externals example_EquihashUpgradeInfo 5]
      regtest_equihash_constant [OF id, of example_Externals example_EquihashUpgradeInfo 2000]
    by (simp add: id nk)
qed

text \<open>
  C7: on a network other than regtest \<^verbatim>\<open>EquihashN(h)\<close> and \<^verbatim>\<open>EquihashK(h)\<close> read the table
  entry of \<^verbatim>\<open>CurrentEpoch(h)\<close>; a stored \<open>N\<close> equal to the inherit-default value is replaced
  by the network's \<^verbatim>\<open>nEquihashN\<close>, and a stored \<open>K\<close> equal to it by the network's
  \<^verbatim>\<open>nEquihashK\<close>, each on its own.
\<close>

theorem equihash_epoch_lookup:
  assumes "strNetworkID this \<noteq> ''regtest''"
  shows "EquihashN ext EquihashUpgradeInfo this h =
           (if N (EquihashUpgradeInfo ! upgrade_index (CurrentEpoch h (consensus this)))
                 = DEFAULT_PARAMS ext
            then nEquihashN (consensus this)
            else N (EquihashUpgradeInfo ! upgrade_index (CurrentEpoch h (consensus this))))
         \<and> EquihashK ext EquihashUpgradeInfo this h =
           (if K (EquihashUpgradeInfo ! upgrade_index (CurrentEpoch h (consensus this)))
                 = DEFAULT_PARAMS ext
            then nEquihashK (consensus this)
            else K (EquihashUpgradeInfo ! upgrade_index (CurrentEpoch h (consensus this))))"
  using assms by (simp add: EquihashN_def EquihashK_def Let_def)

theorem equihash_epoch_lookup_witness:
  "strNetworkID CMainParams \<noteq> ''regtest''
   \<and> CurrentEpoch 100 (consensus CMainParams) = BASE_SPROUT
   \<and> example_EquihashUpgradeInfo ! upgrade_index BASE_SPROUT = \<lparr>N = 0, K = 0\<rparr>
   \<and> EquihashN example_Externals example_EquihashUpgradeInfo CMainParams 100 = 200
   \<and> EquihashK example_Externals example_EquihashUpgradeInfo CMainParams 100 = 9
   \<and> CurrentEpoch 600000 (consensus CMainParams) = UPGRADE_YCASH
   \<and> example_EquihashUpgradeInfo ! upgrade_index UPGRADE_YCASH = \<lparr>N = 192, K = 0\<rparr>
   \<and> EquihashN example_Externals example_EquihashUpgradeInfo CMainParams 600000 = 192
   \<and> EquihashK example_Externals example_EquihashUpgradeInfo CMainParams 600000 = 9"
proof -
  have id: "strNetworkID CMainParams \<noteq> ''regtest''"
    by (simp add: CMainParams_def)
  have nk: "nEquihashN (consensus CMainParams) = 200" "nEquihashK (consensus CMainParams) = 9"
    by (simp_all add: CMainParams_def)
  have t: "example_EquihashUpgradeInfo ! upgrade_index BASE_SPROUT = \<lparr>N = 0, K = 0\<rparr>"
    "example_EquihashUpgradeInfo ! upgrade_index UPGRADE_YCASH = \<lparr>N = 192, K = 0\<rparr>"
    by (simp_all add: example_EquihashUpgradeInfo_def UpdateEquihashUpgradeParameters_def
        example_Externals_simps)
  have "EquihashN example_Externals example_EquihashUpgradeInfo CMainParams 100 = 200
   \<and> EquihashK example_Externals example_EquihashUpgradeInfo CMainParams 100 = 9"
    using equihash_epoch_lookup [OF id, of example_Externals example_EquihashUpgradeInfo 100]
    by (simp add: CMainParams_epochs t nk example_Externals_simps del: upgrade_index.simps)
  moreover have "EquihashN example_Externals example_EquihashUpgradeInfo CMainParams 600000 = 192
   \<and> EquihashK example_Externals example_EquihashUpgradeInfo CMainParams 600000 = 9"
    using equihash_epoch_lookup [OF id, of example_Externals example_EquihashUpgradeInfo 600000]
    by (simp add: CMainParams_epochs t nk example_Externals_simps del: upgrade_index.simps)
  ultimately show ?thesis
    using id CMainParams_epochs t by simp
qed

subsection \<open>Selecting the network\<close>

lemma Params_chain_known:
  "Params_chain ''main'' = Inr Ref_mainParams"
  "Params_chain ''test'' = Inr Ref_testNetParams"
  "Params_chain ''regtest'' = Inr Ref_regTestParams"
  by (simp_all add: Params_chain_def CBaseChainParams_MAIN_def CBaseChainParams_TESTNET_def
      CBaseChainParams_REGTEST_def)

lemma Params_chain_unknown:
  "chain \<notin> {''main'', ''test'', ''regtest''} \<Longrightarrow>
     Params_chain chain = Inl (RuntimeError (''Params: Unknown chain '' @ chain @ ''.''))"
  by (simp add: Params_chain_def CBaseChainParams_MAIN_def CBaseChainParams_TESTNET_def
      CBaseChainParams_REGTEST_def)

lemma SelectParams_binds:
  assumes "SelectBaseParams ext network = None" and "Params_chain network = Inr r"
  shows "fst (SelectParams ext network g) = None"
    and "pCurrentParams (snd (SelectParams ext network g)) = Some r"
  using assms by (simp_all add: SelectParams_def Let_def)

lemma SelectParams_fails:
  assumes "Params_chain network = Inl e"
  shows "fst (SelectParams ext network g) \<noteq> None"
    and "snd (SelectParams ext network g) = g"
    and "SelectBaseParams ext network = None \<Longrightarrow> fst (SelectParams ext network g) = Some e"
  using assms by (simp_all add: SelectParams_def split: option.splits)

text \<open>
  C8: \<^verbatim>\<open>Params(chain)\<close> returns the main, test and regtest parameter set for the names
  "main", "test" and "regtest", and \<^verbatim>\<open>SelectParams\<close> then binds \<^verbatim>\<open>pCurrentParams\<close> to it
  (provided the base selection, outside the file, does not throw). For every other name
  \<^verbatim>\<open>Params(chain)\<close> throws the "Unknown chain" runtime error, \<^verbatim>\<open>SelectParams\<close> fails and
  leaves the state, and so the binding of \<^verbatim>\<open>pCurrentParams\<close>, as it was; the error is that
  of \<^verbatim>\<open>Params(chain)\<close> unless the base selection has thrown before.
\<close>

theorem select_known_networks_only:
  "(chain = ''main'' \<longrightarrow> Params_chain chain = Inr Ref_mainParams)
   \<and> (chain = ''test'' \<longrightarrow> Params_chain chain = Inr Ref_testNetParams)
   \<and> (chain = ''regtest'' \<longrightarrow> Params_chain chain = Inr Ref_regTestParams)
   \<and> (chain \<notin> {''main'', ''test'', ''regtest''} \<longrightarrow>
        Params_chain chain = Inl (RuntimeError (''Params: Unknown chain '' @ chain @ ''.''))
        \<and> fst (SelectParams ext chain g) \<noteq> None
        \<and> snd (SelectParams ext chain g) = g
        \<and> pCurrentParams (snd (SelectParams ext chain g)) = pCurrentParams g
        \<and> (SelectBaseParams ext chain = None \<longrightarrow>
             fst (SelectParams ext chain g) =
               Some (RuntimeError (''Params: Unknown chain '' @ chain @ ''.''))))
   \<and> (fst (SelectParams ext chain g) = None \<longleftrightarrow>
        chain \<in> {''main'', ''test'', ''regtest''} \<and> SelectBaseParams ext chain = None)
   \<and> (fst (SelectParams ext chain g) = None \<longrightarrow>
        (\<exists>r. Params_chain chain = Inr r
             \<and> pCurrentParams (snd (SelectParams ext chain g)) = Some r))"
proof -
  have known: "\<exists>r. Params_chain chain = Inr r" if "chain \<in> {''main'', ''test'', ''regtest''}"
    using that Params_chain_known by auto
  have a: "fst (SelectParams ext chain g) = None \<longleftrightarrow>
        chain \<in> {''main'', ''test'', ''regtest''} \<and> SelectBaseParams ext chain = None"
  proof
    assume ok: "fst (SelectParams ext chain g) = None"
    have "chain \<in> {''main'', ''test'', ''regtest''}"
    proof (rule ccontr)
      assume "chain \<notin> {''main'', ''test'', ''regtest''}"
      then show False
        using ok SelectParams_fails(1) [OF Params_chain_unknown] by blast
    qed
    moreover have "SelectBaseParams ext chain = None"
      using ok by (auto simp: SelectParams_def split: option.splits)
    ultimately show "chain \<in> {''main'', ''test'', ''regtest''} \<and> SelectBaseParams ext chain = None"
      by simp
  next
    assume h: "chain \<in> {''main'', ''test'', ''regtest''} \<and> SelectBaseParams ext chain = None"
    then obtain r where r: "Params_chain chain = Inr r"
      using known by auto
    show "fst (SelectParams ext chain g) = None"
      by (rule SelectParams_binds(1) [OF conjunct2 [OF h] r])
  qed
  have b: "\<exists>r. Params_chain chain = Inr r
             \<and> pCurrentParams (snd (SelectParams ext chain g)) = Some r"
    if ok: "fst (SelectParams ext chain g) = None"
  proof -
    from ok a have s: "SelectBaseParams ext chain = None"
      and k: "chain \<in> {''main'', ''test'', ''regtest''}"
      by simp_all
    from k obtain r where r: "Params_chain chain = Inr r"
      using known by auto
    show ?thesis using SelectParams_binds(2) [OF s r] r by simp
  qed
  have c: "fst (SelectParams ext chain g) \<noteq> None \<and> snd (SelectParams ext chain g) = g
      \<and> pCurrentParams (snd (SelectParams ext chain g)) = pCurrentParams g
      \<and> (SelectBaseParams ext chain = None \<longrightarrow>
             fst (SelectParams ext chain g) =
               Some (RuntimeError (''Params: Unknown chain '' @ chain @ ''.'')))"
    if "chain \<notin> {''main'', ''test'', ''regtest''}"
    using SelectParams_fails [OF Params_chain_unknown [OF that], of ext g] by simp
  show ?thesis
    using a b c Params_chain_known Params_chain_unknown by blast
qed

theorem select_known_networks_only_witness:
  "Params_chain ''main'' = Inr Ref_mainParams
   \<and> fst (SelectParams example_Externals ''main'' (static_init Map.empty)) = None
   \<and> pCurrentParams example_main_selected = Some Ref_mainParams
   \<and> Params_current example_main_selected = Inr CMainParams
   \<and> ''mainnet'' \<notin> {''main'', ''test'', ''regtest''}
   \<and> SelectParams example_Externals ''mainnet'' example_main_selected =
       (Some (RuntimeError ''Params: Unknown chain mainnet.''), example_main_selected)"
proof -
  have s: "SelectBaseParams example_Externals chain = None" for chain
    by (simp add: example_Externals_simps)
  have u: "''mainnet'' \<notin> {''main'', ''test'', ''regtest''}"
    by simp
  have m: "Params_chain ''main'' = Inr Ref_mainParams
      \<and> fst (SelectParams example_Externals ''main'' (static_init Map.empty)) = None
      \<and> pCurrentParams example_main_selected = Some Ref_mainParams"
    using select_known_networks_only
      [of "''main''" example_Externals "static_init Map.empty"]
    by (auto simp: s example_main_selected_def)
  have "mainParams example_main_selected = CMainParams"
    by (simp add: example_main_selected_def SelectParams_def Let_def s Params_chain_known
        CBaseChainParams_REGTEST_def static_init_def)
  then have p: "Params_current example_main_selected = Inr CMainParams"
    using m by (simp add: Params_current_def)
  have "fst (SelectParams example_Externals ''mainnet'' example_main_selected) =
          Some (RuntimeError ''Params: Unknown chain mainnet.'')
        \<and> snd (SelectParams example_Externals ''mainnet'' example_main_selected) =
          example_main_selected"
    using select_known_networks_only [of "''mainnet''" example_Externals example_main_selected] u
    by (simp add: s)
  then have "SelectParams example_Externals ''mainnet'' example_main_selected =
       (Some (RuntimeError ''Params: Unknown chain mainnet.''), example_main_selected)"
    by (simp add: prod_eq_iff)
  with m p u show ?thesis by simp
qed

subsection \<open>Changing the upgrade schedule\<close>

text \<open>
  C9, as the claim states it, at a concrete input: with the main network selected,
  \<^verbatim>\<open>UpdateNetworkUpgradeParameters(UPGRADE_BLOSSOM, 100)\<close> returns normally, and the Blossom
  activation height of the regtest parameter set has changed from the "never active"
  sentinel to 100.
\<close>

theorem update_schedule_counterexample:
  "pCurrentParams example_main_selected = Some Ref_mainParams
   \<and> fst (UpdateNetworkUpgradeParameters UPGRADE_BLOSSOM 100 example_main_selected) = None
   \<and> nActivationHeight
       (vUpgrades (consensus (regTestParams example_main_selected))
          ! upgrade_index UPGRADE_BLOSSOM) = NO_ACTIVATION_HEIGHT
   \<and> nActivationHeight
       (vUpgrades (consensus (regTestParams
          (snd (UpdateNetworkUpgradeParameters UPGRADE_BLOSSOM 100 example_main_selected))))
          ! upgrade_index UPGRADE_BLOSSOM) = 100"
proof -
  have g: "example_main_selected = (static_init Map.empty)\<lparr>pCurrentParams := Some Ref_mainParams\<rparr>"
    by (simp add: example_main_selected_def SelectParams_def Let_def example_Externals_simps
        Params_chain_known CBaseChainParams_REGTEST_def)
  show ?thesis
    by (simp add: g UpdateNetworkUpgradeParameters_def
        CRegTestParams_UpdateNetworkUpgradeParameters_def static_init_def CRegTestParams_def)
qed

text \<open>
  C9, amended: \<^verbatim>\<open>UpdateNetworkUpgradeParameters\<close> does not look at the selected network.
  Called while a network other than regtest is selected, it aborts on its assertion, with
  nothing changed, exactly when the index is \<^verbatim>\<open>BASE_SPROUT\<close> or \<^verbatim>\<open>MAX_NETWORK_UPGRADES\<close>;
  for every other index it returns normally and has set the activation height of that
  entry in the regtest parameter set. In both cases the selected network's parameters, the
  main and test parameter sets and the selection are unchanged.
\<close>

theorem update_schedule_regtest_only:
  assumes "pCurrentParams g = Some r" and "r \<noteq> Ref_regTestParams"
  shows "(fst (UpdateNetworkUpgradeParameters idx h g) = Some AssertionFailure
            \<and> snd (UpdateNetworkUpgradeParameters idx h g) = g
            \<and> idx \<in> {BASE_SPROUT, MAX_NETWORK_UPGRADES}
          \<or> fst (UpdateNetworkUpgradeParameters idx h g) = None
            \<and> idx \<notin> {BASE_SPROUT, MAX_NETWORK_UPGRADES}
            \<and> vUpgrades (consensus (regTestParams (snd (UpdateNetworkUpgradeParameters idx h g)))) =
                (vUpgrades (consensus (regTestParams g)))
                  [upgrade_index idx :=
                     (vUpgrades (consensus (regTestParams g)) ! upgrade_index idx)
                       \<lparr>nActivationHeight := h\<rparr>])
         \<and> Params_current (snd (UpdateNetworkUpgradeParameters idx h g)) = Params_current g
         \<and> mainParams (snd (UpdateNetworkUpgradeParameters idx h g)) = mainParams g
         \<and> testNetParams (snd (UpdateNetworkUpgradeParameters idx h g)) = testNetParams g
         \<and> pCurrentParams (snd (UpdateNetworkUpgradeParameters idx h g)) = pCurrentParams g"
proof (cases "idx \<in> {BASE_SPROUT, MAX_NETWORK_UPGRADES}")
  case True
  then have "UpdateNetworkUpgradeParameters idx h g = (Some AssertionFailure, g)"
    by (auto simp: UpdateNetworkUpgradeParameters_def
        CRegTestParams_UpdateNetworkUpgradeParameters_def)
  with True show ?thesis by simp
next
  case False
  then have rng: "upgrade_index idx > upgrade_index BASE_SPROUT
      \<and> upgrade_index idx < upgrade_index MAX_NETWORK_UPGRADES"
    by (cases idx) simp_all
  have u: "UpdateNetworkUpgradeParameters idx h g =
      (None, g\<lparr>regTestParams := (regTestParams g)\<lparr>consensus := (consensus (regTestParams g))
         \<lparr>vUpgrades := (vUpgrades (consensus (regTestParams g)))
            [upgrade_index idx :=
               (vUpgrades (consensus (regTestParams g)) ! upgrade_index idx)
                 \<lparr>nActivationHeight := h\<rparr>]\<rparr>\<rparr>\<rparr>)"
    using rng by (simp add: UpdateNetworkUpgradeParameters_def
        CRegTestParams_UpdateNetworkUpgradeParameters_def)
  have "Params_current (snd (UpdateNetworkUpgradeParameters idx h g)) = Params_current g"
    using assms by (cases r) (simp_all add: u Params_current_def)
  with False show ?thesis by (simp add: u)
qed

theorem update_schedule_regtest_only_witness:
  "pCurrentParams example_main_selected = Some Ref_mainParams
   \<and> Ref_mainParams \<noteq> Ref_regTestParams
   \<and> fst (UpdateNetworkUpgradeParameters UPGRADE_BLOSSOM 100 example_main_selected) = None
   \<and> Params_current (snd (UpdateNetworkUpgradeParameters UPGRADE_BLOSSOM 100 example_main_selected))
       = Inr CMainParams
   \<and> UpdateNetworkUpgradeParameters BASE_SPROUT 100 example_main_selected
       = (Some AssertionFailure, example_main_selected)"
proof -
  have g: "example_main_selected = (static_init Map.empty)\<lparr>pCurrentParams := Some Ref_mainParams\<rparr>"
    by (simp add: example_main_selected_def SelectParams_def Let_def example_Externals_simps
        Params_chain_known CBaseChainParams_REGTEST_def)
  have p: "pCurrentParams example_main_selected = Some Ref_mainParams"
    by (simp add: g)
  have n: "Ref_mainParams \<noteq> Ref_regTestParams"
    by simp
  have c: "Params_current example_main_selected = Inr CMainParams"
    by (simp add: g Params_current_def static_init_def)
  have "fst (UpdateNetworkUpgradeParameters UPGRADE_BLOSSOM 100 example_main_selected) = None
    \<and> Params_current (snd (UpdateNetworkUpgradeParameters UPGRADE_BLOSSOM 100 example_main_selected))
       = Inr CMainParams"
    using update_schedule_regtest_only [OF p n, of UPGRADE_BLOSSOM 100]
    by (simp add: c)
  moreover have "UpdateNetworkUpgradeParameters BASE_SPROUT 100 example_main_selected
       = (Some AssertionFailure, example_main_selected)"
    using update_schedule_regtest_only [OF p n, of BASE_SPROUT 100]
    by (simp add: prod_eq_iff)
  ultimately show ?thesis using p n by simp
qed

end
